theory Spec2Isabelle
  imports Complex_Main "HOL-Library.AList"
begin

section \<open>Python values, dictionaries and exceptions\<close>

text \<open>
  The values that travel through \<^verbatim>\<open>bin/user/rmi.py\<close>: \<^verbatim>\<open>None\<close>, booleans, unbounded
  integers, floats and strings. A float is modelled by the real number it denotes and
  its arithmetic is exact: the rounding of a double, the infinities and nan are outside
  the model.
\<close>

datatype pyval = PNone | PBool bool | PInt int | PFloat real | PStr string

text \<open>
  A \<^verbatim>\<open>dict\<close> is an association list in insertion order, its keys distinct.
  \<^verbatim>\<open>d[k] = v\<close> is \<^const>\<open>AList.update\<close>: an existing key keeps its place, a new key goes
  to the end.
\<close>

type_synonym pydict = "(string \<times> pyval) list"

text \<open>\<^verbatim>\<open>d.get(k)\<close>: the value, or \<^verbatim>\<open>None\<close> for an absent key.\<close>

definition dict_get :: "pydict \<Rightarrow> string \<Rightarrow> pyval" where
  "dict_get d k = (case map_of d k of None \<Rightarrow> PNone | Some v \<Rightarrow> v)"

text \<open>\<^verbatim>\<open>d.update(other)\<close>, entry by entry in the order of \<^verbatim>\<open>other\<close>.\<close>

definition dict_update :: "('k \<times> 'v) list \<Rightarrow> ('k \<times> 'v) list \<Rightarrow> ('k \<times> 'v) list" where
  "dict_update d other = fold (\<lambda>(k, v). AList.update k v) other d"

text \<open>Truth value testing (\<^verbatim>\<open>bool(v)\<close>).\<close>

fun truthy :: "pyval \<Rightarrow> bool" where
  "truthy PNone = False"
| "truthy (PBool b) = b"
| "truthy (PInt n) = (n \<noteq> 0)"
| "truthy (PFloat r) = (r \<noteq> 0)"
| "truthy (PStr s) = (s \<noteq> [])"

text \<open>
  The exceptions of the model. All but \<open>CancelledError\<close> derive from \<^verbatim>\<open>Exception\<close>;
  \<open>CancelledError\<close> stands for the exceptions that derive from \<^verbatim>\<open>BaseException\<close> only,
  which \<^verbatim>\<open>except Exception\<close> lets through. \<open>ClientError\<close> stands for the failures of
  the upstream client (connection, timeout, protocol).
\<close>

datatype exn = IndexError | TypeError | ValueError | ClientError | CancelledError

fun is_Exception :: "exn \<Rightarrow> bool" where
  "is_Exception CancelledError = False"
| "is_Exception _ = True"

text \<open>
  \<^verbatim>\<open>float(v)\<close>. The grammar of float literals belongs to Python, not to this
  repository: \<open>float_of_str\<close> is a parameter, \<open>None\<close> where \<^verbatim>\<open>float\<close> raises
  \<^verbatim>\<open>ValueError\<close>. An integer converts to the real number it denotes: an integer beyond
  the range of a double, on which \<^verbatim>\<open>float\<close> raises \<^verbatim>\<open>OverflowError\<close>, is outside the
  model, as rounding is.
\<close>

fun py_float :: "(string \<Rightarrow> real option) \<Rightarrow> pyval \<Rightarrow> exn + real" where
  "py_float float_of_str PNone = Inl TypeError"
| "py_float float_of_str (PBool b) = Inr (if b then 1 else 0)"
| "py_float float_of_str (PInt n) = Inr (of_int n)"
| "py_float float_of_str (PFloat r) = Inr r"
| "py_float float_of_str (PStr s) =
     (case float_of_str s of None \<Rightarrow> Inl ValueError | Some r \<Rightarrow> Inr r)"

text \<open>\<^verbatim>\<open>v * 6\<close>: a number is multiplied, a string is repeated, \<^verbatim>\<open>None\<close> raises.\<close>

fun py_times6 :: "pyval \<Rightarrow> exn + pyval" where
  "py_times6 PNone = Inl TypeError"
| "py_times6 (PBool b) = Inr (PInt (if b then 6 else 0))"
| "py_times6 (PInt n) = Inr (PInt (n * 6))"
| "py_times6 (PFloat r) = Inr (PFloat (r * 6))"
| "py_times6 (PStr s) = Inr (PStr (concat (replicate 6 s)))"

section \<open>Cloud cover\<close>

text \<open>
  \<^verbatim>\<open>RMIDataFetcher.get_cloud_cover\<close>. Membership in a list literal compares with
  \<^verbatim>\<open>==\<close>, and no value of another type equals a string.
\<close>

definition get_cloud_cover :: "pyval \<Rightarrow> int" where
  "get_cloud_cover condition =
     (if condition \<in> set [PStr ''sunny'', PStr ''clear-night''] then 0
      else if condition \<in> set [PStr ''cloudy''] then 50
      else 100)"

section \<open>The world a fetcher runs in\<close>

text \<open>
  A field map is a \<^verbatim>\<open>dict\<close> from the name of a weewx field to the name of an RMI field.
  Field maps are shared by reference, so they live in a heap: an address stands for the
  identity of a \<^verbatim>\<open>dict\<close> object, and the heap gives each object its contents.
\<close>

type_synonym fieldmap = "(string \<times> string) list"

type_synonym addr = nat

text \<open>
  A log record keeps its level and its format string; the interpolated arguments are not
  recorded.
\<close>

datatype log_record = LogInfo string | LogError string

text \<open>
  \<open>sessions\<close> has one entry for every \<^verbatim>\<open>aiohttp.ClientSession\<close> created so far, in
  the order of creation: \<open>True\<close> once \<^verbatim>\<open>close()\<close> has been called on it.
\<close>

record world =
  heap :: "addr \<Rightarrow> fieldmap"
  log :: "log_record list"
  sessions :: "bool list"

text \<open>
  The class attribute \<^verbatim>\<open>RMIDataFetcher.DEFAULT_FIELD_MAP\<close> names one \<^verbatim>\<open>dict\<close> object for
  the life of the process. \<open>DEFAULT_FIELD_MAP\<close> is that object, \<open>DEFAULT_FIELD_MAP_literal\<close>
  the contents the class body gives it, and \<open>world_at_import\<close> the world once the module
  is loaded.
\<close>

definition DEFAULT_FIELD_MAP :: addr where
  "DEFAULT_FIELD_MAP = 0"

definition DEFAULT_FIELD_MAP_literal :: fieldmap where
  "DEFAULT_FIELD_MAP_literal =
     [(''barometer'', ''pressure''),
      (''outTemp'', ''temperature''),
      (''windSpeed'', ''wind_speed''),
      (''windGust'', ''wind_speed_gust''),
      (''windDir'', ''wind_bearing''),
      (''cloudcover'', ''condition'')]"

definition world_at_import :: world where
  "world_at_import =
     \<lparr>heap = (\<lambda>_. [])(DEFAULT_FIELD_MAP := DEFAULT_FIELD_MAP_literal), log = [], sessions = []\<rparr>"

section \<open>RMIDataFetcher\<close>

text \<open>
  The keyword arguments of the constructors, one field for each key the code reads;
  \<open>None\<close> is an absent key. A field map is passed by reference (\<open>None\<close> also stands for
  the value \<^verbatim>\<open>None\<close>, which the constructor treats as an absent key); the extensions
  are only read, so they are passed by value.
\<close>

record stn_dict =
  cfg_poll_interval :: "pyval option"
  cfg_latitude :: "pyval option"
  cfg_longitude :: "pyval option"
  cfg_field_map :: "addr option"
  cfg_field_map_extensions :: "fieldmap option"
  cfg_binding :: "pyval option"
  cfg_enable :: "pyval option"

record fetcher =
  poll_interval :: real
  latitude :: real
  longitude :: real
  obs_map :: addr

text \<open>\<^verbatim>\<open>default_field_map\<close> returns the class dictionary itself.\<close>

definition default_field_map :: addr where
  "default_field_map = DEFAULT_FIELD_MAP"

text \<open>
  \<^verbatim>\<open>RMIDataFetcher.__init__\<close>. The three conversions come first and may raise; the
  update is applied to the object \<open>obs_map\<close> refers to.
\<close>

definition RMIDataFetcher_init ::
  "(string \<Rightarrow> real option) \<Rightarrow> stn_dict \<Rightarrow> world \<Rightarrow> (exn + fetcher) \<times> world" where
  "RMIDataFetcher_init float_of_str stn w =
     (case py_float float_of_str
             (case cfg_poll_interval stn of None \<Rightarrow> PInt 60 | Some v \<Rightarrow> v) of
        Inl e \<Rightarrow> (Inl e, w)
      | Inr interval \<Rightarrow>
     (case py_float float_of_str
             (case cfg_latitude stn of None \<Rightarrow> PNone | Some v \<Rightarrow> v) of
        Inl e \<Rightarrow> (Inl e, w)
      | Inr lat \<Rightarrow>
     (case py_float float_of_str
             (case cfg_longitude stn of None \<Rightarrow> PNone | Some v \<Rightarrow> v) of
        Inl e \<Rightarrow> (Inl e, w)
      | Inr lon \<Rightarrow>
          let obs = (case cfg_field_map stn of None \<Rightarrow> default_field_map | Some a \<Rightarrow> a);
              obs_map_ext = (case cfg_field_map_extensions stn of None \<Rightarrow> [] | Some x \<Rightarrow> x);
              w' = w\<lparr>heap := (heap w)(obs := dict_update (heap w obs) obs_map_ext),
                     log := log w @ [LogInfo ''Polling interval is %s'',
                                     LogInfo ''Latitude is %s'',
                                     LogInfo ''Longitude is %s'']\<rparr>
          in (Inr \<lparr>poll_interval = interval, latitude = lat, longitude = lon,
                    obs_map = obs\<rparr>, w'))))"

text \<open>
  Constructor calls one after the other: each starts in the world the one before left
  behind. (A call that raises leaves the world as it found it.)
\<close>

fun construct_fetchers :: "(string \<Rightarrow> real option) \<Rightarrow> stn_dict list \<Rightarrow> world \<Rightarrow> world" where
  "construct_fetchers float_of_str [] w = w"
| "construct_fetchers float_of_str (stn # stns) w =
     construct_fetchers float_of_str stns (snd (RMIDataFetcher_init float_of_str stn w))"

text \<open>
  What the upstream client does in one fetch: \<^verbatim>\<open>refresh_forecasts_coord\<close> raises, or
  it returns and the client then holds the current weather and the radar forecast.
\<close>

datatype upstream = Raises exn | Refreshed pydict "pydict list"

text \<open>The loop over \<^verbatim>\<open>self._obs_map.items()\<close>.\<close>

fun fill_packet :: "pydict \<Rightarrow> fieldmap \<Rightarrow> pydict \<Rightarrow> pydict" where
  "fill_packet weather [] packet = packet"
| "fill_packet weather ((weewx_field, rmi_field) # rest) packet =
     (if rmi_field = ''condition''
      then fill_packet weather rest
             (AList.update weewx_field (PInt (get_cloud_cover (dict_get weather rmi_field)))
                packet)
      else fill_packet weather rest
             (AList.update weewx_field (dict_get weather rmi_field) packet))"

text \<open>
  \<^verbatim>\<open>datetime.strptime(forecast.get("datetime"), "%Y-%m-%dT%H:%M:%S%z").timestamp()\<close>.
  Parsing belongs to Python: \<open>strptime\<close> is a parameter that gives the POSIX timestamp of
  a string in that format, and \<open>None\<close> where \<^verbatim>\<open>strptime\<close> raises \<^verbatim>\<open>ValueError\<close>. An
  argument that is not a string raises \<^verbatim>\<open>TypeError\<close>.
\<close>

definition forecast_timestamp :: "(string \<Rightarrow> real option) \<Rightarrow> pydict \<Rightarrow> exn + real" where
  "forecast_timestamp strptime forecast =
     (case dict_get forecast ''datetime'' of
        PStr s \<Rightarrow> (case strptime s of None \<Rightarrow> Inl ValueError | Some t \<Rightarrow> Inr t)
      | _ \<Rightarrow> Inl TypeError)"

text \<open>
  The loop over the forecasts. \<^verbatim>\<open>time.time()\<close> is read once in every iteration:
  \<open>clock n\<close> is the reading of the \<open>n\<close>-th iteration.
\<close>

fun rain_rate_loop ::
  "(string \<Rightarrow> real option) \<Rightarrow> (nat \<Rightarrow> real) \<Rightarrow> nat \<Rightarrow> pydict \<Rightarrow> pydict list \<Rightarrow> pydict
     \<Rightarrow> exn + pydict" where
  "rain_rate_loop strptime clock n prev [] packet = Inr packet"
| "rain_rate_loop strptime clock n prev (forecast # rest) packet =
     (case forecast_timestamp strptime forecast of
        Inl e \<Rightarrow> Inl e
      | Inr dt_timestamp \<Rightarrow>
          if dt_timestamp > clock n
          then (case py_times6 (dict_get prev ''native_precipitation'') of
                  Inl e \<Rightarrow> Inl e
                | Inr rate \<Rightarrow> Inr (AList.update ''rainRate'' rate packet))
          else rain_rate_loop strptime clock (Suc n) forecast rest packet)"

text \<open>
  \<^verbatim>\<open>RMIDataFetcher.get_weather_packet\<close>. The session is created first; it is closed
  inside the \<^verbatim>\<open>try\<close>, after the refresh has returned. \<^verbatim>\<open>forecasts[0]\<close> raises
  \<^verbatim>\<open>IndexError\<close> on an empty list.
\<close>

definition get_weather_packet ::
  "(string \<Rightarrow> real option) \<Rightarrow> (nat \<Rightarrow> real) \<Rightarrow> fetcher \<Rightarrow> upstream \<Rightarrow> world
     \<Rightarrow> (exn + pydict) \<times> world" where
  "get_weather_packet strptime clock self up w =
     (let session = length (sessions w);
          w1 = w\<lparr>sessions := sessions w @ [False]\<rparr>
      in case up of
           Raises e \<Rightarrow>
             if is_Exception e
             then (Inr [], w1\<lparr>log := log w1 @ [LogError ''Error connecting to RMI api'']\<rparr>)
             else (Inl e, w1)
         | Refreshed weather forecasts \<Rightarrow>
             let w2 = w1\<lparr>sessions := (sessions w1)[session := True]\<rparr>;
                 packet = fill_packet weather (heap w2 (obs_map self)) []
             in (case forecasts of
                   [] \<Rightarrow> (Inl IndexError, w2)
                 | prev # _ \<Rightarrow> (rain_rate_loop strptime clock 0 prev forecasts packet, w2)))"

section \<open>The driver loop\<close>

text \<open>
  \<^verbatim>\<open>_get_as_float\<close> (an Isabelle name cannot start with an underscore). The value is
  looked at only when the key is present and its value is truthy; of the exceptions of
  \<^verbatim>\<open>float\<close> only \<^verbatim>\<open>ValueError\<close> is caught.
\<close>

definition get_as_float ::
  "(string \<Rightarrow> real option) \<Rightarrow> pydict \<Rightarrow> string \<Rightarrow> world \<Rightarrow> (exn + pyval) \<times> world" where
  "get_as_float float_of_str data key w =
     (if key \<in> fst ` set data \<and> truthy (dict_get data key)
      then (case py_float float_of_str (dict_get data key) of
              Inr r \<Rightarrow> (Inr (PFloat r), w)
            | Inl e \<Rightarrow>
                if e = ValueError
                then (Inr PNone,
                      w\<lparr>log := log w @ [LogError ''cannot read value for '%s': %s'']\<rparr>)
                else (Inl e, w))
      else (Inr PNone, w))"

text \<open>\<^verbatim>\<open>weewx.METRIC\<close>, the tag of the metric unit system.\<close>

definition METRIC :: int where
  "METRIC = 16"

text \<open>\<^verbatim>\<open>int(x)\<close> of a float truncates towards zero.\<close>

definition py_int :: "real \<Rightarrow> int" where
  "py_int x = (if 0 \<le> x then \<lfloor>x\<rfloor> else \<lceil>x\<rceil>)"

text \<open>The loop \<^verbatim>\<open>for vname in data: _packet[vname] = _get_as_float(data, vname)\<close>.\<close>

fun coerce_fields ::
  "(string \<Rightarrow> real option) \<Rightarrow> pydict \<Rightarrow> string list \<Rightarrow> pydict \<Rightarrow> world
     \<Rightarrow> (exn + pydict) \<times> world" where
  "coerce_fields float_of_str data [] packet w = (Inr packet, w)"
| "coerce_fields float_of_str data (vname # rest) packet w =
     (case get_as_float float_of_str data vname w of
        (Inl e, w') \<Rightarrow> (Inl e, w')
      | (Inr v, w') \<Rightarrow> coerce_fields float_of_str data rest (AList.update vname v packet) w')"

text \<open>
  One round of the loop of \<^verbatim>\<open>RMIDriver.genLoopPackets\<close>, up to the \<^verbatim>\<open>yield\<close>: the
  packet it yields, or the exception that leaves the generator. \<open>now\<close> is the reading of
  \<^verbatim>\<open>time.time()\<close> for \<^verbatim>\<open>dateTime\<close>.
\<close>

definition genLoopPackets_round ::
  "(string \<Rightarrow> real option) \<Rightarrow> (string \<Rightarrow> real option) \<Rightarrow> (nat \<Rightarrow> real) \<Rightarrow> real \<Rightarrow> fetcher
     \<Rightarrow> upstream \<Rightarrow> world \<Rightarrow> (exn + pydict) \<times> world" where
  "genLoopPackets_round float_of_str strptime clock now self up w =
     (let packet0 = [(''dateTime'', PInt (py_int now)), (''usUnits'', PInt METRIC)]
      in case get_weather_packet strptime clock self up w of
           (Inl e, w1) \<Rightarrow>
             if is_Exception e
             then coerce_fields float_of_str [] [] packet0
                    (w1\<lparr>log := log w1 @ [LogError ''read failed: %s'']\<rparr>)
             else (Inl e, w1)
         | (Inr data, w1) \<Rightarrow> coerce_fields float_of_str data (map fst data) packet0 w1)"

section \<open>RMIService\<close>

datatype event = NEW_LOOP_PACKET | NEW_ARCHIVE_RECORD

text \<open>
  \<open>bound\<close> is the event \<^verbatim>\<open>self.bind\<close> was called with (\<^verbatim>\<open>new_loop_packet\<close> is bound to
  \<open>NEW_LOOP_PACKET\<close>, \<^verbatim>\<open>new_archive_record\<close> to \<open>NEW_ARCHIVE_RECORD\<close>), \<open>None\<close> when
  the constructor bound nothing.
\<close>

record service =
  svc_fetcher :: fetcher
  binding :: pyval
  enable :: pyval
  bound :: "event option"

text \<open>
  The two \<^verbatim>\<open>setdefault\<close> calls on the \<^verbatim>\<open>[RMI]\<close> section: a key that is present keeps
  its value, whatever it is. \<open>latitude_f\<close> and \<open>longitude_f\<close> are the station's own
  coordinates, \<^verbatim>\<open>engine.stn_info.latitude_f\<close> and \<^verbatim>\<open>longitude_f\<close>.
\<close>

definition setdefault_location :: "real \<Rightarrow> real \<Rightarrow> stn_dict \<Rightarrow> stn_dict" where
  "setdefault_location latitude_f longitude_f cfg =
     cfg\<lparr>cfg_latitude :=
           Some (case cfg_latitude cfg of None \<Rightarrow> PFloat latitude_f | Some v \<Rightarrow> v),
         cfg_longitude :=
           Some (case cfg_longitude cfg of None \<Rightarrow> PFloat longitude_f | Some v \<Rightarrow> v)\<rparr>"

text \<open>\<^verbatim>\<open>RMIService.__init__\<close>.\<close>

definition RMIService_init ::
  "(string \<Rightarrow> real option) \<Rightarrow> real \<Rightarrow> real \<Rightarrow> stn_dict \<Rightarrow> world \<Rightarrow> (exn + service) \<times> world" where
  "RMIService_init float_of_str latitude_f longitude_f config w =
     (let cfg = setdefault_location latitude_f longitude_f config
      in case RMIDataFetcher_init float_of_str cfg w of
           (Inl e, w1) \<Rightarrow> (Inl e, w1)
         | (Inr f, w1) \<Rightarrow>
             let b = (case cfg_binding cfg of None \<Rightarrow> PStr ''loop'' | Some v \<Rightarrow> v);
                 en = (case cfg_enable cfg of None \<Rightarrow> PBool True | Some v \<Rightarrow> v);
                 self = \<lparr>svc_fetcher = f, binding = b, enable = en, bound = None\<rparr>
             in if \<not> truthy en
                then (Inr self,
                      w1\<lparr>log := log w1 @ [LogInfo ''RMI service not enabled, exiting.'']\<rparr>)
                else if b = PStr ''loop''
                then (Inr (self\<lparr>bound := Some NEW_LOOP_PACKET\<rparr>), w1)
                else if b = PStr ''archive''
                then (Inr (self\<lparr>bound := Some NEW_ARCHIVE_RECORD\<rparr>), w1)
                else (Inl ValueError, w1))"

section \<open>Inputs for the concrete checks\<close>

text \<open>
  An entry of \<^verbatim>\<open>get_radar_forecast()\<close>, reduced to the two keys the fetcher reads.
\<close>

definition RadarForecast :: "string \<Rightarrow> real \<Rightarrow> pydict" where
  "RadarForecast s r = [(''datetime'', PStr s), (''native_precipitation'', PFloat r)]"

text \<open>Three timestamps ten minutes apart, with the POSIX times Python gives them.\<close>

definition example_strptime :: "string \<Rightarrow> real option" where
  "example_strptime =
     map_of [(''2025-11-04T12:00:00+0100'', 1762254000),
             (''2025-11-04T12:10:00+0100'', 1762254600),
             (''2025-11-04T12:20:00+0100'', 1762255200)]"

definition example_forecasts :: "pydict list" where
  "example_forecasts =
     [RadarForecast ''2025-11-04T12:00:00+0100'' 1,
      RadarForecast ''2025-11-04T12:10:00+0100'' 2,
      RadarForecast ''2025-11-04T12:20:00+0100'' 3]"

definition example_weather :: pydict where
  "example_weather = [(''condition'', PStr ''cloudy''), (''pressure'', PFloat 1013)]"

text \<open>The float literals of the examples.\<close>

definition example_float_of_str :: "string \<Rightarrow> real option" where
  "example_float_of_str = map_of [(''21.5'', 21.5), (''50.85'', 50.85), (''4.35'', 4.35)]"

text \<open>An \<^verbatim>\<open>[RMI]\<close> section with no key set.\<close>

definition empty_stn_dict :: stn_dict where
  "empty_stn_dict =
     \<lparr>cfg_poll_interval = None, cfg_latitude = None, cfg_longitude = None,
      cfg_field_map = None, cfg_field_map_extensions = None,
      cfg_binding = None, cfg_enable = None\<rparr>"

text \<open>
  An \<^verbatim>\<open>[RMI]\<close> section that sets the coordinates and the extensions of the field map,
  and no field map.
\<close>

definition stn_dict_extending :: "fieldmap \<Rightarrow> stn_dict" where
  "stn_dict_extending ext =
     empty_stn_dict\<lparr>cfg_latitude := Some (PFloat 50), cfg_longitude := Some (PFloat 4),
       cfg_field_map_extensions := Some ext\<rparr>"

text \<open>A clear sky at 0 degrees, as the current weather.\<close>

definition freezing_weather :: pydict where
  "freezing_weather = [(''condition'', PStr ''sunny''), (''temperature'', PFloat 0)]"

text \<open>A record as a fetch may return it.\<close>

definition example_data :: pydict where
  "example_data =
     [(''outTemp'', PStr ''21.5''), (''cloudcover'', PInt 0), (''windDir'', PStr ''N''),
      (''rainRate'', PFloat 0)]"

text \<open>A clock that starts at \<open>start\<close> and is a millisecond further at every reading.\<close>

definition clock_from :: "real \<Rightarrow> nat \<Rightarrow> real" where
  "clock_from start n = start + real n / 1000"

text \<open>A fetcher built without a field map of its own: it refers to the class dictionary.\<close>

definition example_fetcher :: fetcher where
  "example_fetcher =
     \<lparr>poll_interval = 60, latitude = 50, longitude = 4, obs_map = DEFAULT_FIELD_MAP\<rparr>"

section \<open>Lemmas on the two loops of the fetch\<close>

lemma fill_packet_other:
  "k \<notin> fst ` set fm \<Longrightarrow> map_of (fill_packet weather fm packet) k = map_of packet k"
  by (induction fm arbitrary: packet) (auto simp: update_conv')

lemma fill_packet_keys:
  "fst ` set (fill_packet weather fm packet) = fst ` set fm \<union> fst ` set packet"
proof (induction fm arbitrary: packet)
  case Nil
  show ?case by simp
next
  case (Cons a fm)
  obtain k src where a: "a = (k, src)" by (cases a)
  show ?case by (simp add: a Cons.IH dom_update Un_commute insert_commute)
qed

lemma fill_packet_entry:
  "distinct (map fst fm) \<Longrightarrow> (k, src) \<in> set fm \<Longrightarrow>
   map_of (fill_packet weather fm packet) k =
     Some (if src = ''condition'' then PInt (get_cloud_cover (dict_get weather src))
           else dict_get weather src)"
proof (induction fm arbitrary: packet)
  case Nil
  then show ?case by simp
next
  case (Cons a fm)
  obtain k' src' where a: "a = (k', src')" by (cases a)
  show ?case
  proof (cases "(k, src) = a")
    case True
    with Cons.prems a have "k \<notin> fst ` set fm" by auto
    with True a show ?thesis
      by (simp add: fill_packet_other update_conv')
  next
    case False
    with Cons.prems have "(k, src) \<in> set fm" "distinct (map fst fm)" by auto
    with Cons.IH a show ?thesis by simp
  qed
qed

lemma rain_rate_loop_past:
  "\<forall>f\<in>set fs. \<exists>t. forecast_timestamp strptime f = Inr t \<and>
      (\<forall>m. n \<le> m \<and> m < n + length fs \<longrightarrow> t \<le> clock m) \<Longrightarrow>
   rain_rate_loop strptime clock n prev fs packet = Inr packet"
proof (induction fs arbitrary: n prev)
  case Nil
  show ?case by simp
next
  case (Cons f fs)
  from Cons.prems obtain t where t: "forecast_timestamp strptime f = Inr t" "t \<le> clock n"
    by force
  have "\<forall>g\<in>set fs. \<exists>t. forecast_timestamp strptime g = Inr t \<and>
      (\<forall>m. Suc n \<le> m \<and> m < Suc n + length fs \<longrightarrow> t \<le> clock m)"
  proof
    fix g assume "g \<in> set fs"
    with Cons.prems obtain u where u: "forecast_timestamp strptime g = Inr u"
      "\<forall>m. n \<le> m \<and> m < n + length (f # fs) \<longrightarrow> u \<le> clock m"
      by auto
    then have "\<forall>m. Suc n \<le> m \<and> m < Suc n + length fs \<longrightarrow> u \<le> clock m"
      by simp
    with u(1) show "\<exists>t. forecast_timestamp strptime g = Inr t \<and>
      (\<forall>m. Suc n \<le> m \<and> m < Suc n + length fs \<longrightarrow> t \<le> clock m)"
      by blast
  qed
  then have "rain_rate_loop strptime clock (Suc n) f fs packet = Inr packet"
    by (rule Cons.IH)
  with t show ?case by simp
qed

lemma rain_rate_loop_future:
  "\<forall>g\<in>set pre. \<exists>t. forecast_timestamp strptime g = Inr t \<and>
      (\<forall>m. n \<le> m \<and> m < n + length (pre @ f # rest) \<longrightarrow> t \<le> clock m) \<Longrightarrow>
   forecast_timestamp strptime f = Inr t \<Longrightarrow>
   \<forall>m. n \<le> m \<and> m < n + length (pre @ f # rest) \<longrightarrow> clock m < t \<Longrightarrow>
   rain_rate_loop strptime clock n prev (pre @ f # rest) packet =
     (case py_times6 (dict_get (last (prev # pre)) ''native_precipitation'') of
        Inl e \<Rightarrow> Inl e
      | Inr rate \<Rightarrow> Inr (AList.update ''rainRate'' rate packet))"
proof (induction pre arbitrary: n prev)
  case Nil
  then have "clock n < t" by simp
  with Nil show ?case by simp
next
  case (Cons p pre)
  from Cons.prems(1) obtain u where u: "forecast_timestamp strptime p = Inr u" "u \<le> clock n"
    by force
  have past: "\<forall>g\<in>set pre. \<exists>t. forecast_timestamp strptime g = Inr t \<and>
      (\<forall>m. Suc n \<le> m \<and> m < Suc n + length (pre @ f # rest) \<longrightarrow> t \<le> clock m)"
  proof
    fix g assume "g \<in> set pre"
    with Cons.prems(1) obtain v where v: "forecast_timestamp strptime g = Inr v"
      "\<forall>m. n \<le> m \<and> m < n + length ((p # pre) @ f # rest) \<longrightarrow> v \<le> clock m"
      by auto
    then have "\<forall>m. Suc n \<le> m \<and> m < Suc n + length (pre @ f # rest) \<longrightarrow> v \<le> clock m"
      by simp
    with v(1) show "\<exists>t. forecast_timestamp strptime g = Inr t \<and>
      (\<forall>m. Suc n \<le> m \<and> m < Suc n + length (pre @ f # rest) \<longrightarrow> t \<le> clock m)"
      by blast
  qed
  from Cons.prems(3)
  have fut: "\<forall>m. Suc n \<le> m \<and> m < Suc n + length (pre @ f # rest) \<longrightarrow> clock m < t"
    by simp
  from Cons.IH [OF past Cons.prems(2) fut, of p] u show ?case by simp
qed

lemma rain_rate_loop_returns:
  "\<exists>r. dict_get prev ''native_precipitation'' = PFloat r \<Longrightarrow>
   \<forall>g\<in>set fs. (\<exists>t. forecast_timestamp strptime g = Inr t) \<and>
                (\<exists>r. dict_get g ''native_precipitation'' = PFloat r) \<Longrightarrow>
   \<exists>packet'. rain_rate_loop strptime clock n prev fs packet = Inr packet'"
proof (induction fs arbitrary: n prev)
  case Nil
  show ?case by simp
next
  case (Cons f fs)
  from Cons.prems obtain t r where t: "forecast_timestamp strptime f = Inr t"
    and r: "dict_get prev ''native_precipitation'' = PFloat r"
    by auto
  show ?case
  proof (cases "clock n < t")
    case True
    with t r show ?thesis by simp
  next
    case False
    from Cons.prems have "\<exists>r. dict_get f ''native_precipitation'' = PFloat r"
      "\<forall>g\<in>set fs. (\<exists>t. forecast_timestamp strptime g = Inr t) \<and>
                (\<exists>r. dict_get g ''native_precipitation'' = PFloat r)"
      by simp_all
    from Cons.IH [OF this, of "Suc n"] False t show ?thesis by simp
  qed
qed

lemma rain_rate_loop_fresh:
  "\<exists>r. dict_get prev ''native_precipitation'' = PFloat r \<Longrightarrow>
   \<forall>g\<in>set fs. (\<exists>t. forecast_timestamp strptime g = Inr t) \<and>
                (\<exists>r. dict_get g ''native_precipitation'' = PFloat r) \<Longrightarrow>
   f \<in> set fs \<Longrightarrow> forecast_timestamp strptime f = Inr t \<Longrightarrow>
   \<forall>m. n \<le> m \<and> m < n + length fs \<longrightarrow> clock m < t \<Longrightarrow>
   rain_rate_loop strptime clock n prev fs packet = Inr packet' \<Longrightarrow>
   ''rainRate'' \<in> fst ` set packet'"
proof (induction fs arbitrary: n prev)
  case Nil
  then show ?case by simp
next
  case (Cons g fs)
  from Cons.prems(1,2) obtain u r where u: "forecast_timestamp strptime g = Inr u"
    and r: "dict_get prev ''native_precipitation'' = PFloat r"
    by auto
  show ?case
  proof (cases "clock n < u")
    case True
    with u r Cons.prems(6) have "packet' = AList.update ''rainRate'' (PFloat (r * 6)) packet"
      by simp
    then show ?thesis by (simp add: dom_update)
  next
    case False
    from Cons.prems(5) have "clock n < t" by simp
    with False u Cons.prems(4) have "f \<noteq> g" by auto
    with Cons.prems(3) have f: "f \<in> set fs" by simp
    from Cons.prems(2) have wf: "\<exists>r. dict_get g ''native_precipitation'' = PFloat r"
      "\<forall>g\<in>set fs. (\<exists>t. forecast_timestamp strptime g = Inr t) \<and>
                (\<exists>r. dict_get g ''native_precipitation'' = PFloat r)"
      by simp_all
    from Cons.prems(5)
    have later: "\<forall>m. Suc n \<le> m \<and> m < Suc n + length fs \<longrightarrow> clock m < t"
      by simp
    from Cons.prems(6) False u
    have "rain_rate_loop strptime clock (Suc n) g fs packet = Inr packet'"
      by simp
    from Cons.IH [OF wf f Cons.prems(4) later this] show ?thesis .
  qed
qed

lemma rain_rate_loop_frame:
  "rain_rate_loop strptime clock n prev fs packet = Inr packet' \<Longrightarrow> k \<noteq> ''rainRate'' \<Longrightarrow>
   map_of packet' k = map_of packet k"
  by (induction fs arbitrary: n prev)
     (auto simp: update_conv' split: sum.splits if_splits)

lemma get_weather_packet_scan:
  "get_weather_packet strptime clock self (Refreshed weather (p # ps)) w =
     (rain_rate_loop strptime clock 0 p (p # ps)
        (fill_packet weather (heap w (obs_map self)) []),
      w\<lparr>sessions := sessions w @ [True]\<rparr>)"
  by (simp add: get_weather_packet_def Let_def del: rain_rate_loop.simps)

lemma example_timestamps:
  "map (forecast_timestamp example_strptime) example_forecasts =
     [Inr 1762254000, Inr 1762254600, Inr 1762255200]"
  by (simp add: example_forecasts_def forecast_timestamp_def RadarForecast_def dict_get_def
        example_strptime_def)

section \<open>Lemmas on the constructor\<close>

lemma dict_update_Nil: "dict_update d [] = d"
  by (simp add: dict_update_def)

lemma dict_update_Cons:
  "dict_update d ((k, v) # other) = dict_update (AList.update k v d) other"
  by (simp add: dict_update_def)

lemma dict_update_other:
  "k \<notin> fst ` set other \<Longrightarrow> map_of (dict_update d other) k = map_of d k"
  by (induction other arbitrary: d) (auto simp: dict_update_Nil dict_update_Cons update_conv')

lemma dict_update_entry:
  "distinct (map fst other) \<Longrightarrow> (k, v) \<in> set other \<Longrightarrow>
   map_of (dict_update d other) k = Some v"
proof (induction other arbitrary: d)
  case Nil
  then show ?case by simp
next
  case (Cons a other)
  obtain k' v' where a: "a = (k', v')" by (cases a)
  show ?case
  proof (cases "(k, v) = a")
    case True
    with Cons.prems a have "k \<notin> fst ` set other" by auto
    with True a show ?thesis
      by (simp add: dict_update_Cons dict_update_other update_conv')
  next
    case False
    with Cons.prems have "(k, v) \<in> set other" "distinct (map fst other)" by auto
    with Cons.IH a show ?thesis by (simp add: dict_update_Cons)
  qed
qed

lemma RMIDataFetcher_init_raises:
  "RMIDataFetcher_init f stn w = (Inl e, w') \<Longrightarrow> w' = w"
  by (auto simp: RMIDataFetcher_init_def Let_def split: sum.splits)

lemma RMIDataFetcher_init_returns:
  "RMIDataFetcher_init f stn w = (Inr self, w') \<Longrightarrow>
   obs_map self = (case cfg_field_map stn of None \<Rightarrow> DEFAULT_FIELD_MAP | Some a \<Rightarrow> a) \<and>
   heap w' = (heap w)(obs_map self := dict_update (heap w (obs_map self))
     (case cfg_field_map_extensions stn of None \<Rightarrow> [] | Some x \<Rightarrow> x))"
  by (auto simp: RMIDataFetcher_init_def Let_def default_field_map_def
        split: sum.splits option.splits)

lemma RMIDataFetcher_init_keeps:
  assumes "k \<notin> fst ` set (case cfg_field_map_extensions stn of None \<Rightarrow> [] | Some x \<Rightarrow> x)"
  shows "map_of (heap (snd (RMIDataFetcher_init f stn w)) a) k = map_of (heap w a) k"
proof (cases "RMIDataFetcher_init f stn w")
  case (Pair res w')
  show ?thesis
  proof (cases res)
    case (Inl e)
    with Pair have "RMIDataFetcher_init f stn w = (Inl e, w')" by simp
    then have "w' = w" by (rule RMIDataFetcher_init_raises)
    with Pair show ?thesis by simp
  next
    case (Inr self)
    with Pair RMIDataFetcher_init_returns [of f stn w self w'] assms show ?thesis
      by (simp add: dict_update_other)
  qed
qed

lemma construct_fetchers_keeps:
  "\<forall>stn\<in>set stns.
     k \<notin> fst ` set (case cfg_field_map_extensions stn of None \<Rightarrow> [] | Some x \<Rightarrow> x) \<Longrightarrow>
   map_of (heap (construct_fetchers f stns w) a) k = map_of (heap w a) k"
  by (induction stns arbitrary: w) (simp_all add: RMIDataFetcher_init_keeps)

lemma example_construction:
  "heap w DEFAULT_FIELD_MAP = d \<Longrightarrow>
   RMIDataFetcher_init example_float_of_str (stn_dict_extending ext) w =
     (Inr example_fetcher,
      w\<lparr>heap := (heap w)(DEFAULT_FIELD_MAP := dict_update d ext),
        log := log w @ [LogInfo ''Polling interval is %s'', LogInfo ''Latitude is %s'',
                        LogInfo ''Longitude is %s'']\<rparr>)"
  by (simp add: stn_dict_extending_def empty_stn_dict_def RMIDataFetcher_init_def Let_def
        default_field_map_def example_fetcher_def)

section \<open>Lemmas on the coercion to float\<close>

lemma get_as_float_absent:
  "key \<notin> fst ` set data \<Longrightarrow> get_as_float f data key w = (Inr PNone, w)"
  by (simp add: get_as_float_def)

lemma get_as_float_not_truthy:
  "\<not> truthy (dict_get data key) \<Longrightarrow> get_as_float f data key w = (Inr PNone, w)"
  by (simp add: get_as_float_def)

lemma dict_get_present: "map_of data key = Some v \<Longrightarrow> dict_get data key = v"
  by (simp add: dict_get_def)

lemma map_of_present: "map_of data key = Some v \<Longrightarrow> key \<in> fst ` set data"
  by (metis domI dom_map_of_conv_image_fst)

lemma truthy_py_float: "truthy v \<Longrightarrow> py_float f v \<noteq> Inl TypeError"
  by (cases v) (auto split: option.splits)

lemma py_float_errors: "py_float f v = Inl e \<Longrightarrow> e = TypeError \<or> e = ValueError"
  by (cases v) (auto split: option.splits)

lemma get_as_float_returns:
  "\<exists>v. \<forall>w. \<exists>w'. get_as_float f data key w = (Inr v, w')"
proof (cases "key \<in> fst ` set data \<and> truthy (dict_get data key)")
  case False
  then have "\<forall>w. get_as_float f data key w = (Inr PNone, w)"
    by (auto simp: get_as_float_def)
  then show ?thesis by blast
next
  case True
  show ?thesis
  proof (cases "py_float f (dict_get data key)")
    case (Inr r)
    with True have "\<forall>w. get_as_float f data key w = (Inr (PFloat r), w)"
      by (simp add: get_as_float_def)
    then show ?thesis by blast
  next
    case (Inl e)
    with True truthy_py_float [of "dict_get data key" f] py_float_errors [OF Inl]
    have "e = ValueError" by auto
    with True Inl have "\<forall>w. \<exists>w'. get_as_float f data key w = (Inr PNone, w')"
      by (simp add: get_as_float_def)
    then show ?thesis by blast
  qed
qed

lemma coerce_fields_result:
  "\<exists>packet' w'. coerce_fields f data keys packet w = (Inr packet', w') \<and>
     (\<forall>k v w0 w0'. k \<in> set keys \<longrightarrow> get_as_float f data k w0 = (Inr v, w0') \<longrightarrow>
        map_of packet' k = Some v) \<and>
     (\<forall>k. k \<notin> set keys \<longrightarrow> map_of packet' k = map_of packet k)"
proof (induction keys arbitrary: packet w)
  case Nil
  show ?case by simp
next
  case (Cons vname rest)
  from get_as_float_returns [of f data vname]
  obtain v where v: "\<forall>w. \<exists>w'. get_as_float f data vname w = (Inr v, w')"
    by blast
  then obtain w1 where w1: "get_as_float f data vname w = (Inr v, w1)"
    by blast
  from Cons.IH [of "AList.update vname v packet" w1]
  obtain packet' w' where
    run: "coerce_fields f data rest (AList.update vname v packet) w1 = (Inr packet', w')"
    and inside: "\<forall>k u w0 w0'. k \<in> set rest \<longrightarrow> get_as_float f data k w0 = (Inr u, w0') \<longrightarrow>
        map_of packet' k = Some u"
    and outside: "\<forall>k. k \<notin> set rest \<longrightarrow>
        map_of packet' k = map_of (AList.update vname v packet) k"
    by blast
  have "coerce_fields f data (vname # rest) packet w = (Inr packet', w')"
    using w1 run by simp
  moreover have "map_of packet' k = Some u"
    if "k \<in> set (vname # rest)" "get_as_float f data k w0 = (Inr u, w0')" for k u w0 w0'
  proof (cases "k \<in> set rest")
    case True
    with inside that(2) show ?thesis by blast
  next
    case False
    with that(1) have k: "k = vname" by simp
    with v that(2) have "u = v" by (metis Pair_inject sum.inject(2))
    with False outside k show ?thesis by (simp add: update_conv')
  qed
  moreover have "map_of packet' k = map_of packet k" if "k \<notin> set (vname # rest)" for k
    using that outside by (simp add: update_conv')
  ultimately show ?case by blast
qed

section \<open>Cloud cover: theorems\<close>

text \<open>
  C4. \<open>get_cloud_cover\<close> is a total function of the condition code: 0 for "sunny" and
  "clear-night", 50 for "cloudy", and 100 for every other value, among them the empty
  string and an absent code (\<^verbatim>\<open>None\<close>).
\<close>

theorem get_cloud_cover_buckets:
  "get_cloud_cover (PStr ''sunny'') = 0 \<and>
   get_cloud_cover (PStr ''clear-night'') = 0 \<and>
   get_cloud_cover (PStr ''cloudy'') = 50 \<and>
   get_cloud_cover (PStr '''') = 100 \<and>
   get_cloud_cover PNone = 100 \<and>
   (\<forall>c. c \<notin> {PStr ''sunny'', PStr ''clear-night'', PStr ''cloudy''} \<longrightarrow>
        get_cloud_cover c = 100)"
  by (simp add: get_cloud_cover_def)

theorem get_cloud_cover_buckets_witness:
  "PStr ''rainy'' \<notin> {PStr ''sunny'', PStr ''clear-night'', PStr ''cloudy''} \<and>
   get_cloud_cover (PStr ''rainy'') = 100"
proof -
  have other: "\<forall>c. c \<notin> {PStr ''sunny'', PStr ''clear-night'', PStr ''cloudy''} \<longrightarrow>
      get_cloud_cover c = 100"
    using get_cloud_cover_buckets by blast
  have "PStr ''rainy'' \<notin> {PStr ''sunny'', PStr ''clear-night'', PStr ''cloudy''}"
    by simp
  with other show ?thesis by simp
qed

section \<open>The fields copied from the current weather\<close>

text \<open>
  C5. For every pair (output name, source name) of the field map, the loop over the field
  map sets the output field: to \<open>get_cloud_cover\<close> of the current condition code when
  the source name is "condition" (an integer, not the string), and otherwise to the value
  the current weather holds under the source name, which is \<^verbatim>\<open>None\<close> when the weather
  has no such key; the loop raises nothing. A record the fetch returns holds that value
  under every output name other than "rainRate", the key the rain-rate step writes. The
  keys of a \<^verbatim>\<open>dict\<close> are distinct.
\<close>

theorem field_map_copied:
  assumes "distinct (map fst field_map)"
      and "(output_name, source_name) \<in> set field_map"
  shows "map_of (fill_packet weather field_map []) output_name =
           Some (if source_name = ''condition''
                 then PInt (get_cloud_cover (dict_get weather ''condition''))
                 else dict_get weather source_name) \<and>
         (source_name \<noteq> ''condition'' \<and> source_name \<notin> fst ` set weather \<longrightarrow>
            map_of (fill_packet weather field_map []) output_name = Some PNone) \<and>
         (heap w (obs_map self) = field_map \<and> output_name \<noteq> ''rainRate'' \<and>
          get_weather_packet strptime clock self (Refreshed weather forecasts) w =
            (Inr packet, w') \<longrightarrow>
            map_of packet output_name = map_of (fill_packet weather field_map []) output_name)"
proof -
  have entry: "map_of (fill_packet weather field_map []) output_name =
           Some (if source_name = ''condition''
                 then PInt (get_cloud_cover (dict_get weather ''condition''))
                 else dict_get weather source_name)"
    using fill_packet_entry [OF assms, of weather "[]"] by simp
  have absent: "dict_get weather source_name = PNone"
    if "source_name \<notin> fst ` set weather"
  proof -
    from that have "map_of weather source_name = None"
      by (simp add: map_of_eq_None_iff)
    then show ?thesis by (simp add: dict_get_def)
  qed
  have returned: "map_of packet output_name =
      map_of (fill_packet weather field_map []) output_name"
    if h: "heap w (obs_map self) = field_map" "output_name \<noteq> ''rainRate''"
      "get_weather_packet strptime clock self (Refreshed weather forecasts) w =
         (Inr packet, w')"
  proof (cases forecasts)
    case Nil
    with h(3) show ?thesis by (simp add: get_weather_packet_def)
  next
    case (Cons p ps)
    with h(1,3) have "rain_rate_loop strptime clock 0 p (p # ps)
        (fill_packet weather field_map []) = Inr packet"
      by (simp add: get_weather_packet_def Let_def del: rain_rate_loop.simps)
    from rain_rate_loop_frame [OF this h(2)] show ?thesis .
  qed
  from entry absent returned show ?thesis by simp
qed

text \<open>
  The default field map on a weather with a condition and without a temperature:
  \<open>cloudcover\<close> is 50 and \<open>outTemp\<close> is \<^verbatim>\<open>None\<close>, also in the record of a whole fetch.
\<close>

theorem field_map_copied_witness:
  "distinct (map fst DEFAULT_FIELD_MAP_literal) \<and>
   (''cloudcover'', ''condition'') \<in> set DEFAULT_FIELD_MAP_literal \<and>
   map_of (fill_packet example_weather DEFAULT_FIELD_MAP_literal []) ''cloudcover'' =
     Some (PInt 50) \<and>
   (''outTemp'', ''temperature'') \<in> set DEFAULT_FIELD_MAP_literal \<and>
   ''temperature'' \<notin> fst ` set example_weather \<and>
   map_of (fill_packet example_weather DEFAULT_FIELD_MAP_literal []) ''outTemp'' = Some PNone \<and>
   heap world_at_import (obs_map example_fetcher) = DEFAULT_FIELD_MAP_literal \<and>
   get_weather_packet example_strptime (clock_from 1762254900) example_fetcher
       (Refreshed example_weather example_forecasts) world_at_import =
     (Inr (AList.update ''rainRate'' (PFloat 12)
             (fill_packet example_weather DEFAULT_FIELD_MAP_literal [])),
      world_at_import\<lparr>sessions := [True]\<rparr>) \<and>
   map_of (AList.update ''rainRate'' (PFloat 12)
             (fill_packet example_weather DEFAULT_FIELD_MAP_literal [])) ''cloudcover'' =
     Some (PInt 50)"
proof -
  have d: "distinct (map fst DEFAULT_FIELD_MAP_literal)"
    by (simp add: DEFAULT_FIELD_MAP_literal_def)
  have c: "(''cloudcover'', ''condition'') \<in> set DEFAULT_FIELD_MAP_literal"
    by (simp add: DEFAULT_FIELD_MAP_literal_def)
  have t: "(''outTemp'', ''temperature'') \<in> set DEFAULT_FIELD_MAP_literal"
    by (simp add: DEFAULT_FIELD_MAP_literal_def)
  have a: "''temperature'' \<notin> fst ` set example_weather"
    by (simp add: example_weather_def)
  have h: "heap world_at_import (obs_map example_fetcher) = DEFAULT_FIELD_MAP_literal"
    by (simp add: world_at_import_def example_fetcher_def)
  have g: "get_weather_packet example_strptime (clock_from 1762254900) example_fetcher
       (Refreshed example_weather example_forecasts) world_at_import =
     (Inr (AList.update ''rainRate'' (PFloat 12)
             (fill_packet example_weather DEFAULT_FIELD_MAP_literal [])),
      world_at_import\<lparr>sessions := [True]\<rparr>)"
    unfolding example_forecasts_def get_weather_packet_scan h
    by (simp add: example_strptime_def RadarForecast_def forecast_timestamp_def dict_get_def
          world_at_import_def clock_from_def)
  have cc: "get_cloud_cover (dict_get example_weather ''condition'') = 50"
    by (simp add: get_cloud_cover_def dict_get_def example_weather_def)
  note c1 = field_map_copied [OF d c, of example_weather world_at_import example_fetcher
      example_strptime "clock_from 1762254900" example_forecasts
      "AList.update ''rainRate'' (PFloat 12)
         (fill_packet example_weather DEFAULT_FIELD_MAP_literal [])"
      "world_at_import\<lparr>sessions := [True]\<rparr>"]
  note c2 = field_map_copied [OF d t, of example_weather world_at_import example_fetcher
      example_strptime "clock_from 1762254900" example_forecasts
      "AList.update ''rainRate'' (PFloat 12)
         (fill_packet example_weather DEFAULT_FIELD_MAP_literal [])"
      "world_at_import\<lparr>sessions := [True]\<rparr>"]
  from c1 cc have r1: "map_of (fill_packet example_weather DEFAULT_FIELD_MAP_literal [])
      ''cloudcover'' = Some (PInt 50)"
    by simp
  have r2: "map_of (fill_packet example_weather DEFAULT_FIELD_MAP_literal [])
      ''outTemp'' = Some PNone"
    by (rule c2 [THEN conjunct2, THEN conjunct1, rule_format]) (simp add: a)
  from c1 h g r1 have r3: "map_of (AList.update ''rainRate'' (PFloat 12)
             (fill_packet example_weather DEFAULT_FIELD_MAP_literal [])) ''cloudcover'' =
     Some (PInt 50)"
    by simp
  from d c t a h g r1 r2 r3 show ?thesis by (intro conjI)
qed

section \<open>A fetch that fails upstream\<close>

text \<open>
  C6. When the refresh raises an exception that derives from \<^verbatim>\<open>Exception\<close>, as every
  network and protocol failure of the upstream client does, the fetch logs one error and
  returns the empty record; nothing is raised.
\<close>

theorem fetch_failure_empty:
  "is_Exception e \<Longrightarrow>
   get_weather_packet strptime clock self (Raises e) w =
     (Inr [], w\<lparr>sessions := sessions w @ [False],
                log := log w @ [LogError ''Error connecting to RMI api'']\<rparr>)"
  by (simp add: get_weather_packet_def Let_def)

text \<open>A client error on the first fetch after import.\<close>

theorem fetch_failure_empty_witness:
  "is_Exception ClientError \<and>
   get_weather_packet example_strptime (clock_from 1762254900) example_fetcher (Raises ClientError)
       world_at_import =
     (Inr [], world_at_import\<lparr>sessions := [False],
                              log := [LogError ''Error connecting to RMI api'']\<rparr>)"
proof -
  have e: "is_Exception ClientError" by simp
  from fetch_failure_empty [OF e, of example_strptime "clock_from 1762254900" example_fetcher
      world_at_import]
  show ?thesis by (simp add: world_at_import_def)
qed

text \<open>
  C7. The claim is that every fetch closes the session it opened, on every exit path. On
  the path through the \<^verbatim>\<open>except\<close> clause the code does not: the session the fetch
  created is still open when it returns.
\<close>

theorem session_left_open:
  "sessions (snd (get_weather_packet strptime clock self (Raises ClientError) w)) =
     sessions w @ [False]"
  by (simp add: get_weather_packet_def Let_def)

section \<open>The rain rate\<close>

text \<open>
  C3. The claim is that a fetch with an empty forecast returns the record without a rain
  rate. The code reads \<^verbatim>\<open>forecasts[0]\<close> before the loop: on an empty forecast the fetch
  raises \<^verbatim>\<open>IndexError\<close> and returns no record.
\<close>

theorem empty_forecast_raises:
  "get_weather_packet strptime clock self (Refreshed weather []) w =
     (Inl IndexError, w\<lparr>sessions := sessions w @ [True]\<rparr>)"
  by (simp add: get_weather_packet_def Let_def)

text \<open>
  C2. When the forecast holds a point strictly in the future, and the points before the
  first such point are all at or before the current time and there is at least one of
  them, the rain rate is six times the precipitation of the point just before the first
  future point. In particular, for the points \<open>(t0, 1.0)\<close>, \<open>(t1, 2.0)\<close>, \<open>(t2, 3.0)\<close>
  in ascending order with \<open>t1 \<le> now < t2\<close> the rain rate is 12.0. The current time is
  any reading the scan takes of the clock, one for each forecast it looks at: a point in
  the past is at or before all of them, a point in the future after all of them.
\<close>

theorem rain_rate_value:
  "(forecasts = pre @ prev # future # rest \<and>
    (\<forall>f\<in>set (pre @ [prev]). \<exists>t. forecast_timestamp strptime f = Inr t \<and>
        (\<forall>n<length forecasts. t \<le> clock n)) \<and>
    forecast_timestamp strptime future = Inr t \<and> (\<forall>n<length forecasts. clock n < t) \<and>
    dict_get prev ''native_precipitation'' = PFloat r \<longrightarrow>
    get_weather_packet strptime clock self (Refreshed weather forecasts) w =
      (Inr (AList.update ''rainRate'' (PFloat (r * 6))
              (fill_packet weather (heap w (obs_map self)) [])),
       w\<lparr>sessions := sessions w @ [True]\<rparr>)) \<and>
   (strptime s0 = Some t0 \<and> strptime s1 = Some t1 \<and> strptime s2 = Some t2 \<and>
    t0 \<le> t1 \<and> (\<forall>n<3. t1 \<le> clock n \<and> clock n < t2) \<longrightarrow>
    get_weather_packet strptime clock self
        (Refreshed weather [RadarForecast s0 1, RadarForecast s1 2, RadarForecast s2 3]) w =
      (Inr (AList.update ''rainRate'' (PFloat 12)
              (fill_packet weather (heap w (obs_map self)) [])),
       w\<lparr>sessions := sessions w @ [True]\<rparr>))"
proof -
  have general: "get_weather_packet strptime clock self (Refreshed weather forecasts) w =
      (Inr (AList.update ''rainRate'' (PFloat (r * 6))
              (fill_packet weather (heap w (obs_map self)) [])),
       w\<lparr>sessions := sessions w @ [True]\<rparr>)"
    if shape: "forecasts = pre @ prev # future # rest"
      and past: "\<forall>f\<in>set (pre @ [prev]). \<exists>t. forecast_timestamp strptime f = Inr t \<and>
        (\<forall>n<length forecasts. t \<le> clock n)"
      and fut: "forecast_timestamp strptime future = Inr t" "\<forall>n<length forecasts. clock n < t"
      and prec: "dict_get prev ''native_precipitation'' = PFloat r"
    for forecasts pre prev future rest t r
  proof -
    obtain p ps where ps: "pre @ prev # future # rest = p # ps"
      by (cases pre) auto
    then have eq: "p # ps = (pre @ [prev]) @ future # rest"
      by simp
    have len: "length forecasts = length ((pre @ [prev]) @ future # rest)"
      using shape by simp
    from past have past': "\<forall>f\<in>set (pre @ [prev]). \<exists>t. forecast_timestamp strptime f = Inr t \<and>
        (\<forall>m. 0 \<le> m \<and> m < 0 + length ((pre @ [prev]) @ future # rest) \<longrightarrow> t \<le> clock m)"
      unfolding len by simp
    from fut(2)
    have fut': "\<forall>m. 0 \<le> m \<and> m < 0 + length ((pre @ [prev]) @ future # rest) \<longrightarrow> clock m < t"
      unfolding len by simp
    have loop: "rain_rate_loop strptime clock 0 p ((pre @ [prev]) @ future # rest)
            (fill_packet weather (heap w (obs_map self)) []) =
          Inr (AList.update ''rainRate'' (PFloat (r * 6))
                 (fill_packet weather (heap w (obs_map self)) []))"
      using rain_rate_loop_future [OF past' fut(1) fut', of p] prec by simp
    show ?thesis
      unfolding shape ps get_weather_packet_scan unfolding eq loop ..
  qed
  have example: "get_weather_packet strptime clock self
        (Refreshed weather [RadarForecast s0 1, RadarForecast s1 2, RadarForecast s2 3]) w =
      (Inr (AList.update ''rainRate'' (PFloat 12)
              (fill_packet weather (heap w (obs_map self)) [])),
       w\<lparr>sessions := sessions w @ [True]\<rparr>)"
    if s: "strptime s0 = Some t0" "strptime s1 = Some t1" "strptime s2 = Some t2"
      and asc: "t0 \<le> t1" and now: "\<forall>n<3. t1 \<le> clock n \<and> clock n < t2"
  proof -
    from asc now have "\<forall>n<3. t0 \<le> clock n"
      by fastforce
    with s now show ?thesis
      using general [of "[RadarForecast s0 1, RadarForecast s1 2, RadarForecast s2 3]"
        "[RadarForecast s0 1]" "RadarForecast s1 2" "RadarForecast s2 3" "[]" t2 2]
      by (simp add: RadarForecast_def forecast_timestamp_def dict_get_def)
  qed
  from general example show ?thesis by blast
qed

text \<open>
  The three example points, scanned from 12:15 on, between the second and the third.
\<close>

theorem rain_rate_value_witness:
  "example_forecasts =
     [RadarForecast ''2025-11-04T12:00:00+0100'' 1] @
     RadarForecast ''2025-11-04T12:10:00+0100'' 2 #
     RadarForecast ''2025-11-04T12:20:00+0100'' 3 # [] \<and>
   map (forecast_timestamp example_strptime) example_forecasts =
     [Inr 1762254000, Inr 1762254600, Inr 1762255200] \<and>
   map (clock_from 1762254900) [0, 1, 2] = [1762254900, 1762254900.001, 1762254900.002] \<and>
   dict_get (RadarForecast ''2025-11-04T12:10:00+0100'' 2) ''native_precipitation'' =
     PFloat 2 \<and>
   get_weather_packet example_strptime (clock_from 1762254900) example_fetcher
       (Refreshed example_weather example_forecasts) world_at_import =
     (Inr (AList.update ''rainRate'' (PFloat 12)
             (fill_packet example_weather DEFAULT_FIELD_MAP_literal [])),
      world_at_import\<lparr>sessions := [True]\<rparr>) \<and>
   example_strptime ''2025-11-04T12:00:00+0100'' = Some 1762254000 \<and>
   example_strptime ''2025-11-04T12:10:00+0100'' = Some 1762254600 \<and>
   example_strptime ''2025-11-04T12:20:00+0100'' = Some 1762255200 \<and>
   get_weather_packet example_strptime (clock_from 1762254900) example_fetcher
       (Refreshed example_weather
          [RadarForecast ''2025-11-04T12:00:00+0100'' 1,
           RadarForecast ''2025-11-04T12:10:00+0100'' 2,
           RadarForecast ''2025-11-04T12:20:00+0100'' 3]) world_at_import =
     (Inr (AList.update ''rainRate'' (PFloat 12)
             (fill_packet example_weather DEFAULT_FIELD_MAP_literal [])),
      world_at_import\<lparr>sessions := [True]\<rparr>)"
proof -
  let ?clock = "clock_from 1762254900"
  have shape: "example_forecasts =
     [RadarForecast ''2025-11-04T12:00:00+0100'' 1] @
     RadarForecast ''2025-11-04T12:10:00+0100'' 2 #
     RadarForecast ''2025-11-04T12:20:00+0100'' 3 # []"
    by (simp add: example_forecasts_def)
  have len: "length example_forecasts = 3"
    by (simp add: example_forecasts_def)
  note ts = example_timestamps
  then have t0: "forecast_timestamp example_strptime
      (RadarForecast ''2025-11-04T12:00:00+0100'' 1) = Inr 1762254000"
    and t1: "forecast_timestamp example_strptime
      (RadarForecast ''2025-11-04T12:10:00+0100'' 2) = Inr 1762254600"
    and t2: "forecast_timestamp example_strptime
      (RadarForecast ''2025-11-04T12:20:00+0100'' 3) = Inr 1762255200"
    by (simp_all add: example_forecasts_def)
  have readings: "map ?clock [0, 1, 2] = [1762254900, 1762254900.001, 1762254900.002]"
    by (simp add: clock_from_def)
  have p: "dict_get (RadarForecast ''2025-11-04T12:10:00+0100'' 2) ''native_precipitation'' =
     PFloat 2"
    by (simp add: RadarForecast_def dict_get_def)
  have past: "\<forall>f\<in>set ([RadarForecast ''2025-11-04T12:00:00+0100'' 1] @
        [RadarForecast ''2025-11-04T12:10:00+0100'' 2]).
      \<exists>t. forecast_timestamp example_strptime f = Inr t \<and>
        (\<forall>n<length example_forecasts. t \<le> ?clock n)"
    using t0 t1 by (simp add: len clock_from_def)
  have fut: "\<forall>n<length example_forecasts. ?clock n < 1762255200"
    by (simp add: len clock_from_def)
  have "get_weather_packet example_strptime ?clock example_fetcher
       (Refreshed example_weather example_forecasts) world_at_import =
     (Inr (AList.update ''rainRate'' (PFloat (2 * 6))
             (fill_packet example_weather
                (heap world_at_import (obs_map example_fetcher)) [])),
      world_at_import\<lparr>sessions := sessions world_at_import @ [True]\<rparr>)"
    by (rule rain_rate_value [THEN conjunct1, rule_format, OF conjI [OF shape conjI [OF past
      conjI [OF t2 conjI [OF fut p]]]]])
  then have g: "get_weather_packet example_strptime ?clock example_fetcher
       (Refreshed example_weather example_forecasts) world_at_import =
     (Inr (AList.update ''rainRate'' (PFloat 12)
             (fill_packet example_weather DEFAULT_FIELD_MAP_literal [])),
      world_at_import\<lparr>sessions := [True]\<rparr>)"
    by (simp add: world_at_import_def example_fetcher_def)
  have le: "(1762254000::real) \<le> 1762254600"
    by simp
  have now: "\<forall>n<3. 1762254600 \<le> ?clock n \<and> ?clock n < 1762255200"
    by (simp add: clock_from_def)
  have s0: "example_strptime ''2025-11-04T12:00:00+0100'' = Some 1762254000"
    and s1: "example_strptime ''2025-11-04T12:10:00+0100'' = Some 1762254600"
    and s2: "example_strptime ''2025-11-04T12:20:00+0100'' = Some 1762255200"
    by (simp_all add: example_strptime_def)
  have "get_weather_packet example_strptime ?clock example_fetcher
       (Refreshed example_weather
          [RadarForecast ''2025-11-04T12:00:00+0100'' 1,
           RadarForecast ''2025-11-04T12:10:00+0100'' 2,
           RadarForecast ''2025-11-04T12:20:00+0100'' 3]) world_at_import =
     (Inr (AList.update ''rainRate'' (PFloat 12)
             (fill_packet example_weather
                (heap world_at_import (obs_map example_fetcher)) [])),
      world_at_import\<lparr>sessions := sessions world_at_import @ [True]\<rparr>)"
    by (rule rain_rate_value [where strptime = example_strptime, THEN conjunct2,
          rule_format, OF conjI [OF s0 conjI [OF s1 conjI [OF s2 conjI [OF le now]]]]])
  then have g': "get_weather_packet example_strptime ?clock example_fetcher
       (Refreshed example_weather
          [RadarForecast ''2025-11-04T12:00:00+0100'' 1,
           RadarForecast ''2025-11-04T12:10:00+0100'' 2,
           RadarForecast ''2025-11-04T12:20:00+0100'' 3]) world_at_import =
     (Inr (AList.update ''rainRate'' (PFloat 12)
             (fill_packet example_weather DEFAULT_FIELD_MAP_literal [])),
      world_at_import\<lparr>sessions := [True]\<rparr>)"
    by (simp add: world_at_import_def example_fetcher_def)
  from shape ts readings p g s0 s1 s2 g' show ?thesis by (intro conjI)
qed

text \<open>
  C1, as stated, fails: from 12:25 on the three example points are all in the past, and
  the record the fetch returns has no rain rate (the claim gives it the value 18.0).
\<close>

theorem stale_forecast_no_rain_rate:
  "example_forecasts \<noteq> [] \<and>
   map (forecast_timestamp example_strptime) example_forecasts =
     [Inr 1762254000, Inr 1762254600, Inr 1762255200] \<and>
   (1762255200::real) \<le> clock_from 1762255500 0 \<and>
   (1762255200::real) \<le> clock_from 1762255500 1 \<and>
   (1762255200::real) \<le> clock_from 1762255500 2 \<and>
   get_weather_packet example_strptime (clock_from 1762255500) example_fetcher
       (Refreshed example_weather example_forecasts) world_at_import =
     (Inr [(''barometer'', PFloat 1013), (''outTemp'', PNone), (''windSpeed'', PNone),
           (''windGust'', PNone), (''windDir'', PNone), (''cloudcover'', PInt 50)],
      world_at_import\<lparr>sessions := [True]\<rparr>) \<and>
   map_of [(''barometer'', PFloat 1013), (''outTemp'', PNone), (''windSpeed'', PNone),
           (''windGust'', PNone), (''windDir'', PNone), (''cloudcover'', PInt 50)]
     ''rainRate'' = None"
  by (simp add: example_forecasts_def get_weather_packet_def Let_def world_at_import_def
        example_fetcher_def DEFAULT_FIELD_MAP_def DEFAULT_FIELD_MAP_literal_def
        example_weather_def example_strptime_def RadarForecast_def forecast_timestamp_def
        dict_get_def get_cloud_cover_def clock_from_def)

text \<open>
  C1, amended. For every non-empty forecast whose points carry a timestamp and a float
  precipitation, the fetch returns a record. When every point is at or before the current
  time, that record is the one built from the field map, with no rain-rate key added (its
  keys are the output names of the field map);
  when some point is strictly in the future, the record has the rain-rate key. The
  current time is any reading the scan takes of the clock, as for C2.
\<close>

theorem rain_rate_presence:
  assumes nonempty: "forecasts \<noteq> []"
      and wf: "\<forall>f\<in>set forecasts.
                 (\<exists>t. forecast_timestamp strptime f = Inr t) \<and>
                 (\<exists>r. dict_get f ''native_precipitation'' = PFloat r)"
  shows "\<exists>packet.
           get_weather_packet strptime clock self (Refreshed weather forecasts) w =
             (Inr packet, w\<lparr>sessions := sessions w @ [True]\<rparr>) \<and>
           ((\<forall>f\<in>set forecasts. \<forall>t. forecast_timestamp strptime f = Inr t \<longrightarrow>
                (\<forall>n<length forecasts. t \<le> clock n)) \<longrightarrow>
              packet = fill_packet weather (heap w (obs_map self)) [] \<and>
              fst ` set packet = fst ` set (heap w (obs_map self))) \<and>
           ((\<exists>f\<in>set forecasts. \<exists>t. forecast_timestamp strptime f = Inr t \<and>
                (\<forall>n<length forecasts. clock n < t)) \<longrightarrow>
              ''rainRate'' \<in> fst ` set packet)"
proof -
  let ?base = "fill_packet weather (heap w (obs_map self)) []"
  from nonempty obtain p ps where ps: "forecasts = p # ps"
    by (cases forecasts) auto
  with wf have p: "\<exists>r. dict_get p ''native_precipitation'' = PFloat r"
    by simp
  from rain_rate_loop_returns [OF p wf, of clock 0 ?base]
  obtain packet where loop: "rain_rate_loop strptime clock 0 p forecasts ?base = Inr packet"
    by blast
  then have "rain_rate_loop strptime clock 0 p (p # ps) ?base = Inr packet"
    unfolding ps .
  then have fetch: "get_weather_packet strptime clock self (Refreshed weather forecasts) w =
      (Inr packet, w\<lparr>sessions := sessions w @ [True]\<rparr>)"
    unfolding ps get_weather_packet_scan by (simp del: rain_rate_loop.simps)
  have stale: "packet = ?base \<and> fst ` set packet = fst ` set (heap w (obs_map self))"
    if "\<forall>f\<in>set forecasts. \<forall>t. forecast_timestamp strptime f = Inr t \<longrightarrow>
          (\<forall>n<length forecasts. t \<le> clock n)"
  proof -
    from that wf
    have "\<forall>f\<in>set forecasts. \<exists>t. forecast_timestamp strptime f = Inr t \<and>
        (\<forall>m. 0 \<le> m \<and> m < 0 + length forecasts \<longrightarrow> t \<le> clock m)"
      by (metis add_0)
    then have "rain_rate_loop strptime clock 0 p forecasts ?base = Inr ?base"
      by (rule rain_rate_loop_past)
    with loop have "packet = ?base" by simp
    moreover have "fst ` set ?base = fst ` set (heap w (obs_map self))"
      by (simp add: fill_packet_keys)
    ultimately show ?thesis by simp
  qed
  have fresh: "''rainRate'' \<in> fst ` set packet"
    if "\<exists>f\<in>set forecasts. \<exists>t. forecast_timestamp strptime f = Inr t \<and>
          (\<forall>n<length forecasts. clock n < t)"
  proof -
    from that obtain f t where f: "f \<in> set forecasts"
      and t: "forecast_timestamp strptime f = Inr t"
      and later: "\<forall>n<length forecasts. clock n < t"
      by blast
    from later have "\<forall>m. 0 \<le> m \<and> m < 0 + length forecasts \<longrightarrow> clock m < t"
      by simp
    from rain_rate_loop_fresh [OF p wf f t this loop] show ?thesis .
  qed
  from fetch stale fresh show ?thesis by blast
qed

text \<open>The three example points scanned from 12:25 on, all in the past, and from 12:15 on.\<close>

theorem rain_rate_presence_witness:
  "example_forecasts \<noteq> [] \<and>
   map (forecast_timestamp example_strptime) example_forecasts =
     [Inr 1762254000, Inr 1762254600, Inr 1762255200] \<and>
   map (\<lambda>f. dict_get f ''native_precipitation'') example_forecasts =
     [PFloat 1, PFloat 2, PFloat 3] \<and>
   map (clock_from 1762255500) [0, 1, 2] = [1762255500, 1762255500.001, 1762255500.002] \<and>
   get_weather_packet example_strptime (clock_from 1762255500) example_fetcher
       (Refreshed example_weather example_forecasts) world_at_import =
     (Inr (fill_packet example_weather DEFAULT_FIELD_MAP_literal []),
      world_at_import\<lparr>sessions := [True]\<rparr>) \<and>
   map (clock_from 1762254900) [0, 1, 2] = [1762254900, 1762254900.001, 1762254900.002] \<and>
   ''rainRate'' \<in> fst ` set (projr (fst
     (get_weather_packet example_strptime (clock_from 1762254900) example_fetcher
        (Refreshed example_weather example_forecasts) world_at_import)))"
proof -
  have n: "example_forecasts \<noteq> []"
    by (simp add: example_forecasts_def)
  have len: "length example_forecasts = 3"
    by (simp add: example_forecasts_def)
  note ts = example_timestamps
  have pr: "map (\<lambda>f. dict_get f ''native_precipitation'') example_forecasts =
     [PFloat 1, PFloat 2, PFloat 3]"
    by (simp add: example_forecasts_def RadarForecast_def dict_get_def)
  have wf: "\<forall>f\<in>set example_forecasts.
      (\<exists>t. forecast_timestamp example_strptime f = Inr t) \<and>
      (\<exists>r. dict_get f ''native_precipitation'' = PFloat r)"
    using ts pr by (simp add: example_forecasts_def)
  have late: "map (clock_from 1762255500) [0, 1, 2] =
      [1762255500, 1762255500.001, 1762255500.002]"
    and early: "map (clock_from 1762254900) [0, 1, 2] =
      [1762254900, 1762254900.001, 1762254900.002]"
    by (simp_all add: clock_from_def)
  have stale: "\<forall>f\<in>set example_forecasts. \<forall>t. forecast_timestamp example_strptime f = Inr t \<longrightarrow>
      (\<forall>n<length example_forecasts. t \<le> clock_from 1762255500 n)"
    using ts by (auto simp: example_forecasts_def len clock_from_def)
  have fresh: "\<exists>f\<in>set example_forecasts. \<exists>t. forecast_timestamp example_strptime f = Inr t \<and>
      (\<forall>n<length example_forecasts. clock_from 1762254900 n < t)"
    using ts by (simp add: example_forecasts_def clock_from_def)
  from rain_rate_presence [OF n wf, of "clock_from 1762255500" example_fetcher example_weather
      world_at_import] stale
  have "get_weather_packet example_strptime (clock_from 1762255500) example_fetcher
       (Refreshed example_weather example_forecasts) world_at_import =
     (Inr (fill_packet example_weather (heap world_at_import (obs_map example_fetcher)) []),
      world_at_import\<lparr>sessions := sessions world_at_import @ [True]\<rparr>)"
    by auto
  then have g: "get_weather_packet example_strptime (clock_from 1762255500) example_fetcher
       (Refreshed example_weather example_forecasts) world_at_import =
     (Inr (fill_packet example_weather DEFAULT_FIELD_MAP_literal []),
      world_at_import\<lparr>sessions := [True]\<rparr>)"
    by (simp add: world_at_import_def example_fetcher_def)
  from rain_rate_presence [OF n wf, of "clock_from 1762254900" example_fetcher example_weather
      world_at_import] fresh
  have k: "''rainRate'' \<in> fst ` set (projr (fst
     (get_weather_packet example_strptime (clock_from 1762254900) example_fetcher
        (Refreshed example_weather example_forecasts) world_at_import)))"
    by auto
  from n ts pr late g early k show ?thesis by (intro conjI)
qed

section \<open>The shared default field map\<close>

text \<open>
  C9, as stated, fails: a fetcher constructed without a field map and with the non-empty
  extensions \<open>{"barometer": "pressure"}\<close> leaves the default table as it was, since the
  table already holds that entry.
\<close>

theorem extension_already_present:
  "cfg_field_map (stn_dict_extending [(''barometer'', ''pressure'')]) = None \<and>
   cfg_field_map_extensions (stn_dict_extending [(''barometer'', ''pressure'')]) =
     Some [(''barometer'', ''pressure'')] \<and>
   fst (RMIDataFetcher_init example_float_of_str
          (stn_dict_extending [(''barometer'', ''pressure'')]) world_at_import) =
     Inr example_fetcher \<and>
   heap (snd (RMIDataFetcher_init example_float_of_str
                (stn_dict_extending [(''barometer'', ''pressure'')]) world_at_import))
     DEFAULT_FIELD_MAP = heap world_at_import DEFAULT_FIELD_MAP"
  by (simp add: stn_dict_extending_def empty_stn_dict_def RMIDataFetcher_init_def Let_def
        world_at_import_def default_field_map_def DEFAULT_FIELD_MAP_def
        DEFAULT_FIELD_MAP_literal_def dict_update_def example_fetcher_def)

text \<open>
  C9, amended. A fetcher constructed without a field map refers to the class dictionary
  itself, and its extensions are applied to that dictionary in place: the contents become
  the old contents updated with the extensions, and they change whenever the extensions
  hold an entry the dictionary did not hold. Every fetcher constructed afterwards without
  a field map refers to the same dictionary, and finds there each entry of the earlier
  extensions whose key no extensions of a later construction (its own included) have
  written again.
\<close>

theorem default_field_map_shared:
  assumes "cfg_field_map stn1 = None"
      and "cfg_field_map_extensions stn1 = Some ext"
      and "distinct (map fst ext)"
      and "RMIDataFetcher_init f stn1 w = (Inr self1, w1)"
      and "cfg_field_map stn2 = None"
      and "RMIDataFetcher_init f stn2 (construct_fetchers f between w1) = (Inr self2, w2)"
  shows "obs_map self1 = DEFAULT_FIELD_MAP \<and> obs_map self2 = DEFAULT_FIELD_MAP \<and>
         heap w1 DEFAULT_FIELD_MAP = dict_update (heap w DEFAULT_FIELD_MAP) ext \<and>
         (\<forall>k v. (k, v) \<in> set ext \<and> map_of (heap w DEFAULT_FIELD_MAP) k \<noteq> Some v \<longrightarrow>
            heap w1 DEFAULT_FIELD_MAP \<noteq> heap w DEFAULT_FIELD_MAP) \<and>
         (\<forall>k v. (k, v) \<in> set ext \<and>
            (\<forall>stn\<in>set (between @ [stn2]).
               k \<notin> fst ` set (case cfg_field_map_extensions stn of None \<Rightarrow> [] | Some x \<Rightarrow> x))
            \<longrightarrow> map_of (heap w2 (obs_map self2)) k = Some v)"
proof -
  from RMIDataFetcher_init_returns [OF assms(4)] assms(1,2)
  have o1: "obs_map self1 = DEFAULT_FIELD_MAP"
    and h1: "heap w1 DEFAULT_FIELD_MAP = dict_update (heap w DEFAULT_FIELD_MAP) ext"
    by simp_all
  from RMIDataFetcher_init_returns [OF assms(6)] assms(5)
  have o2: "obs_map self2 = DEFAULT_FIELD_MAP"
    by simp
  have entry: "map_of (heap w1 DEFAULT_FIELD_MAP) k = Some v" if "(k, v) \<in> set ext" for k v
    using that assms(3) by (simp add: h1 dict_update_entry)
  have changed: "heap w1 DEFAULT_FIELD_MAP \<noteq> heap w DEFAULT_FIELD_MAP"
    if "(k, v) \<in> set ext" "map_of (heap w DEFAULT_FIELD_MAP) k \<noteq> Some v" for k v
  proof
    assume "heap w1 DEFAULT_FIELD_MAP = heap w DEFAULT_FIELD_MAP"
    with entry [OF that(1)] that(2) show False by simp
  qed
  have seen: "map_of (heap w2 (obs_map self2)) k = Some v"
    if kv: "(k, v) \<in> set ext"
      and later: "\<forall>stn\<in>set (between @ [stn2]).
        k \<notin> fst ` set (case cfg_field_map_extensions stn of None \<Rightarrow> [] | Some x \<Rightarrow> x)"
    for k v
  proof -
    from later have b: "\<forall>stn\<in>set between.
        k \<notin> fst ` set (case cfg_field_map_extensions stn of None \<Rightarrow> [] | Some x \<Rightarrow> x)"
      and l: "k \<notin> fst ` set (case cfg_field_map_extensions stn2 of None \<Rightarrow> [] | Some x \<Rightarrow> x)"
      by simp_all
    have "map_of (heap w2 DEFAULT_FIELD_MAP) k =
        map_of (heap (construct_fetchers f between w1) DEFAULT_FIELD_MAP) k"
      using RMIDataFetcher_init_keeps [OF l, of f "construct_fetchers f between w1"
          DEFAULT_FIELD_MAP] assms(6)
      by simp
    also have "\<dots> = map_of (heap w1 DEFAULT_FIELD_MAP) k"
      using b by (rule construct_fetchers_keeps)
    also have "\<dots> = Some v"
      using kv by (rule entry)
    finally show ?thesis by (simp add: o2)
  qed
  from o1 o2 h1 changed seen show ?thesis by blast
qed

text \<open>
  Three constructions after import, none with a field map: the first adds \<open>rain\<close>, the
  second \<open>UV\<close>, the third nothing; the third finds \<open>rain\<close> in its field map.
\<close>

theorem default_field_map_shared_witness:
  "cfg_field_map (stn_dict_extending [(''rain'', ''precipitation'')]) = None \<and>
   cfg_field_map_extensions (stn_dict_extending [(''rain'', ''precipitation'')]) =
     Some [(''rain'', ''precipitation'')] \<and>
   distinct (map fst [(''rain'', ''precipitation'')]) \<and>
   fst (RMIDataFetcher_init example_float_of_str
          (stn_dict_extending [(''rain'', ''precipitation'')]) world_at_import) =
     Inr example_fetcher \<and>
   cfg_field_map (stn_dict_extending []) = None \<and>
   fst (RMIDataFetcher_init example_float_of_str (stn_dict_extending [])
          (construct_fetchers example_float_of_str [stn_dict_extending [(''UV'', ''uv_index'')]]
             (snd (RMIDataFetcher_init example_float_of_str
                     (stn_dict_extending [(''rain'', ''precipitation'')]) world_at_import)))) =
     Inr example_fetcher \<and>
   map_of (heap world_at_import DEFAULT_FIELD_MAP) ''rain'' = None \<and>
   heap (snd (RMIDataFetcher_init example_float_of_str
                (stn_dict_extending [(''rain'', ''precipitation'')]) world_at_import))
     DEFAULT_FIELD_MAP \<noteq> heap world_at_import DEFAULT_FIELD_MAP \<and>
   map_of (heap (snd (RMIDataFetcher_init example_float_of_str (stn_dict_extending [])
          (construct_fetchers example_float_of_str [stn_dict_extending [(''UV'', ''uv_index'')]]
             (snd (RMIDataFetcher_init example_float_of_str
                     (stn_dict_extending [(''rain'', ''precipitation'')]) world_at_import)))))
            DEFAULT_FIELD_MAP) ''rain'' = Some ''precipitation''"
proof -
  let ?f = example_float_of_str
  let ?s1 = "stn_dict_extending [(''rain'', ''precipitation'')]"
  let ?sb = "stn_dict_extending [(''UV'', ''uv_index'')]"
  let ?s2 = "stn_dict_extending []"
  let ?w1 = "snd (RMIDataFetcher_init ?f ?s1 world_at_import)"
  let ?wb = "construct_fetchers ?f [?sb] ?w1"
  let ?w2 = "snd (RMIDataFetcher_init ?f ?s2 ?wb)"
  have m1: "cfg_field_map ?s1 = None"
    and x1: "cfg_field_map_extensions ?s1 = Some [(''rain'', ''precipitation'')]"
    and m2: "cfg_field_map ?s2 = None"
    and x2: "cfg_field_map_extensions ?s2 = Some []"
    and xb: "cfg_field_map_extensions ?sb = Some [(''UV'', ''uv_index'')]"
    by (simp_all add: stn_dict_extending_def empty_stn_dict_def)
  have d: "distinct (map fst [(''rain'', ''precipitation'')])"
    by simp
  have f1: "fst (RMIDataFetcher_init ?f ?s1 world_at_import) = Inr example_fetcher"
    by (simp add: example_construction [OF refl])
  then have i1: "RMIDataFetcher_init ?f ?s1 world_at_import = (Inr example_fetcher, ?w1)"
    by (simp add: prod_eq_iff)
  have f2: "fst (RMIDataFetcher_init ?f ?s2 ?wb) = Inr example_fetcher"
    by (simp add: example_construction [OF refl])
  then have i2: "RMIDataFetcher_init ?f ?s2 ?wb = (Inr example_fetcher, ?w2)"
    by (simp add: prod_eq_iff)
  have before: "map_of (heap world_at_import DEFAULT_FIELD_MAP) ''rain'' = None"
    by (simp add: world_at_import_def DEFAULT_FIELD_MAP_literal_def)
  note shared = default_field_map_shared [OF m1 x1 d i1 m2 i2]
  have seen: "map_of (heap ?w2 (obs_map example_fetcher)) ''rain'' = Some ''precipitation''"
    by (rule shared [THEN conjunct2, THEN conjunct2, THEN conjunct2, THEN conjunct2,
          rule_format])
       (simp add: x2 xb)
  have changed: "heap ?w1 DEFAULT_FIELD_MAP \<noteq> heap world_at_import DEFAULT_FIELD_MAP"
    by (rule shared [THEN conjunct2, THEN conjunct2, THEN conjunct2, THEN conjunct1,
          rule_format, of "''rain''" "''precipitation''"])
       (simp add: before)
  from seen have seen': "map_of (heap ?w2 DEFAULT_FIELD_MAP) ''rain'' = Some ''precipitation''"
    by (simp add: example_fetcher_def)
  from m1 x1 d f1 m2 f2 before changed seen' show ?thesis by (intro conjI)
qed

section \<open>The binding of the service\<close>

text \<open>
  C8, as stated, fails: with \<^verbatim>\<open>enable\<close> false, the binding "hourly", which is neither
  "loop" nor "archive", raises nothing; the service is constructed and bound to no event.
\<close>

theorem disabled_service_ignores_binding:
  "cfg_binding (empty_stn_dict\<lparr>cfg_binding := Some (PStr ''hourly''),
                                cfg_enable := Some (PBool False)\<rparr>) =
     Some (PStr ''hourly'') \<and>
   PStr ''hourly'' \<noteq> PStr ''loop'' \<and> PStr ''hourly'' \<noteq> PStr ''archive'' \<and>
   RMIService_init example_float_of_str 50 4
       (empty_stn_dict\<lparr>cfg_binding := Some (PStr ''hourly''),
                        cfg_enable := Some (PBool False)\<rparr>)
       world_at_import =
     (Inr \<lparr>svc_fetcher = example_fetcher, binding = PStr ''hourly'', enable = PBool False,
            bound = None\<rparr>,
      world_at_import\<lparr>log := [LogInfo ''Polling interval is %s'', LogInfo ''Latitude is %s'',
                                LogInfo ''Longitude is %s'',
                                LogInfo ''RMI service not enabled, exiting.'']\<rparr>)"
  by (simp add: RMIService_init_def setdefault_location_def empty_stn_dict_def
        RMIDataFetcher_init_def Let_def default_field_map_def example_fetcher_def
        world_at_import_def dict_update_def)

text \<open>
  C8, amended. In host-event mode, when the service is enabled (the value of \<^verbatim>\<open>enable\<close>
  is truthy, as its default is), every binding other than "loop" and "archive" makes the
  construction raise, with \<^verbatim>\<open>ValueError\<close> once the fetcher is constructed; "loop" (also
  the default) and "archive" are accepted and bound to their events whenever the fetcher
  can be constructed. When \<^verbatim>\<open>enable\<close> is falsy the constructor returns before it looks
  at the binding, and binds nothing.
\<close>

theorem service_binding_checked:
  assumes "b = (case cfg_binding config of None \<Rightarrow> PStr ''loop'' | Some v \<Rightarrow> v)"
      and "en = (case cfg_enable config of None \<Rightarrow> PBool True | Some v \<Rightarrow> v)"
  shows "(truthy en \<and> b \<notin> {PStr ''loop'', PStr ''archive''} \<longrightarrow>
            isl (fst (RMIService_init float_of_str latitude_f longitude_f config w))) \<and>
         (RMIDataFetcher_init float_of_str (setdefault_location latitude_f longitude_f config) w =
            (Inr f, w1) \<longrightarrow>
          (truthy en \<and> b \<notin> {PStr ''loop'', PStr ''archive''} \<longrightarrow>
             RMIService_init float_of_str latitude_f longitude_f config w =
               (Inl ValueError, w1)) \<and>
          (truthy en \<and> b = PStr ''loop'' \<longrightarrow>
             RMIService_init float_of_str latitude_f longitude_f config w =
               (Inr \<lparr>svc_fetcher = f, binding = b, enable = en,
                      bound = Some NEW_LOOP_PACKET\<rparr>, w1)) \<and>
          (truthy en \<and> b = PStr ''archive'' \<longrightarrow>
             RMIService_init float_of_str latitude_f longitude_f config w =
               (Inr \<lparr>svc_fetcher = f, binding = b, enable = en,
                      bound = Some NEW_ARCHIVE_RECORD\<rparr>, w1)) \<and>
          (\<not> truthy en \<longrightarrow>
             RMIService_init float_of_str latitude_f longitude_f config w =
               (Inr \<lparr>svc_fetcher = f, binding = b, enable = en, bound = None\<rparr>,
                w1\<lparr>log := log w1 @ [LogInfo ''RMI service not enabled, exiting.'']\<rparr>)))"
proof -
  have b: "cfg_binding (setdefault_location latitude_f longitude_f config) = cfg_binding config"
    and e: "cfg_enable (setdefault_location latitude_f longitude_f config) = cfg_enable config"
    by (simp_all add: setdefault_location_def)
  have raises: "isl (fst (RMIService_init float_of_str latitude_f longitude_f config w))"
    if "truthy en" "b \<notin> {PStr ''loop'', PStr ''archive''}"
    using that assms
    by (simp add: RMIService_init_def Let_def b e split: prod.splits sum.splits)
  have constructed: "?thesis"
    if "RMIDataFetcher_init float_of_str (setdefault_location latitude_f longitude_f config) w =
            (Inr f, w1)"
    using that assms raises by (simp add: RMIService_init_def Let_def b e)
  show ?thesis
  proof (cases "RMIDataFetcher_init float_of_str
      (setdefault_location latitude_f longitude_f config) w = (Inr f, w1)")
    case True
    then show ?thesis by (rule constructed)
  next
    case False
    with raises show ?thesis by simp
  qed
qed

text \<open>
  Enabled services with the binding "hourly", with no binding and with "archive", and a
  service with the binding "weekly" that an empty \<^verbatim>\<open>enable\<close> disables.
\<close>

theorem service_binding_checked_witness:
  "isl (fst (RMIService_init example_float_of_str 50 4
               (empty_stn_dict\<lparr>cfg_binding := Some (PStr ''hourly'')\<rparr>) world_at_import)) \<and>
   RMIService_init example_float_of_str 50 4
       (empty_stn_dict\<lparr>cfg_binding := Some (PStr ''hourly'')\<rparr>) world_at_import =
     (Inl ValueError,
      world_at_import\<lparr>log := [LogInfo ''Polling interval is %s'', LogInfo ''Latitude is %s'',
                                LogInfo ''Longitude is %s'']\<rparr>) \<and>
   RMIService_init example_float_of_str 50 4
       (empty_stn_dict\<lparr>cfg_binding := None\<rparr>) world_at_import =
     (Inr \<lparr>svc_fetcher = example_fetcher, binding = PStr ''loop'', enable = PBool True,
            bound = Some NEW_LOOP_PACKET\<rparr>,
      world_at_import\<lparr>log := [LogInfo ''Polling interval is %s'', LogInfo ''Latitude is %s'',
                                LogInfo ''Longitude is %s'']\<rparr>) \<and>
   RMIService_init example_float_of_str 50 4
       (empty_stn_dict\<lparr>cfg_binding := Some (PStr ''archive'')\<rparr>) world_at_import =
     (Inr \<lparr>svc_fetcher = example_fetcher, binding = PStr ''archive'', enable = PBool True,
            bound = Some NEW_ARCHIVE_RECORD\<rparr>,
      world_at_import\<lparr>log := [LogInfo ''Polling interval is %s'', LogInfo ''Latitude is %s'',
                                LogInfo ''Longitude is %s'']\<rparr>) \<and>
   RMIService_init example_float_of_str 50 4
       (empty_stn_dict\<lparr>cfg_binding := Some (PStr ''weekly''), cfg_enable := Some (PStr [])\<rparr>)
       world_at_import =
     (Inr \<lparr>svc_fetcher = example_fetcher, binding = PStr ''weekly'', enable = PStr [],
            bound = None\<rparr>,
      world_at_import\<lparr>log := [LogInfo ''Polling interval is %s'', LogInfo ''Latitude is %s'',
                                LogInfo ''Longitude is %s'',
                                LogInfo ''RMI service not enabled, exiting.'']\<rparr>)"
proof -
  let ?w1 = "world_at_import\<lparr>log := [LogInfo ''Polling interval is %s'',
      LogInfo ''Latitude is %s'', LogInfo ''Longitude is %s'']\<rparr>"
  have c: "RMIDataFetcher_init example_float_of_str
      (setdefault_location 50 4 (empty_stn_dict\<lparr>cfg_binding := x\<rparr>)) world_at_import =
      (Inr example_fetcher, ?w1)"
    and c': "RMIDataFetcher_init example_float_of_str
      (setdefault_location 50 4 (empty_stn_dict\<lparr>cfg_binding := x, cfg_enable := y\<rparr>))
      world_at_import = (Inr example_fetcher, ?w1)" for x y
    by (simp_all add: setdefault_location_def empty_stn_dict_def RMIDataFetcher_init_def
          Let_def default_field_map_def example_fetcher_def world_at_import_def
          dict_update_def)
  have b: "v = (case cfg_binding (empty_stn_dict\<lparr>cfg_binding := Some v\<rparr>) of
         None \<Rightarrow> PStr ''loop'' | Some v \<Rightarrow> v)"
    and bl: "PStr ''loop'' = (case cfg_binding (empty_stn_dict\<lparr>cfg_binding := None\<rparr>) of
         None \<Rightarrow> PStr ''loop'' | Some v \<Rightarrow> v)"
    and bw: "PStr ''weekly'' =
      (case cfg_binding (empty_stn_dict\<lparr>cfg_binding := Some (PStr ''weekly''),
                                         cfg_enable := Some (PStr [])\<rparr>) of
         None \<Rightarrow> PStr ''loop'' | Some v \<Rightarrow> v)"
    and en: "PBool True = (case cfg_enable (empty_stn_dict\<lparr>cfg_binding := x\<rparr>) of
         None \<Rightarrow> PBool True | Some v \<Rightarrow> v)"
    and ew: "PStr [] =
      (case cfg_enable (empty_stn_dict\<lparr>cfg_binding := Some (PStr ''weekly''),
                                        cfg_enable := Some (PStr [])\<rparr>) of
         None \<Rightarrow> PBool True | Some v \<Rightarrow> v)" for v x
    by (simp_all add: empty_stn_dict_def)
  have t: "truthy (PBool True)" and f: "\<not> truthy (PStr [])"
    by simp_all
  have h: "PStr ''hourly'' \<notin> {PStr ''loop'', PStr ''archive''}"
    by simp
  have r0: "isl (fst (RMIService_init example_float_of_str 50 4
               (empty_stn_dict\<lparr>cfg_binding := Some (PStr ''hourly'')\<rparr>) world_at_import))"
    using service_binding_checked [OF b en, THEN conjunct1, rule_format, OF conjI [OF t h]] .
  have r1: "RMIService_init example_float_of_str 50 4
       (empty_stn_dict\<lparr>cfg_binding := Some (PStr ''hourly'')\<rparr>) world_at_import =
     (Inl ValueError, ?w1)"
    using service_binding_checked [OF b en, THEN conjunct2, rule_format, OF c,
        THEN conjunct1, rule_format, OF conjI [OF t h]] .
  have r2: "RMIService_init example_float_of_str 50 4
       (empty_stn_dict\<lparr>cfg_binding := None\<rparr>) world_at_import =
     (Inr \<lparr>svc_fetcher = example_fetcher, binding = PStr ''loop'', enable = PBool True,
            bound = Some NEW_LOOP_PACKET\<rparr>, ?w1)"
    using service_binding_checked [OF bl en, THEN conjunct2, rule_format, OF c,
        THEN conjunct2, THEN conjunct1, rule_format, OF conjI [OF t refl]] .
  have r3: "RMIService_init example_float_of_str 50 4
       (empty_stn_dict\<lparr>cfg_binding := Some (PStr ''archive'')\<rparr>) world_at_import =
     (Inr \<lparr>svc_fetcher = example_fetcher, binding = PStr ''archive'', enable = PBool True,
            bound = Some NEW_ARCHIVE_RECORD\<rparr>, ?w1)"
    using service_binding_checked [OF b en, THEN conjunct2, rule_format, OF c,
        THEN conjunct2, THEN conjunct2, THEN conjunct1, rule_format, OF conjI [OF t refl]] .
  have r4: "RMIService_init example_float_of_str 50 4
       (empty_stn_dict\<lparr>cfg_binding := Some (PStr ''weekly''), cfg_enable := Some (PStr [])\<rparr>)
       world_at_import =
     (Inr \<lparr>svc_fetcher = example_fetcher, binding = PStr ''weekly'', enable = PStr [],
            bound = None\<rparr>,
      ?w1\<lparr>log := log ?w1 @ [LogInfo ''RMI service not enabled, exiting.'']\<rparr>)"
    using service_binding_checked [OF bw ew, THEN conjunct2, rule_format, OF c',
        THEN conjunct2, THEN conjunct2, THEN conjunct2, rule_format, OF f] .
  from r4 have r4': "RMIService_init example_float_of_str 50 4
       (empty_stn_dict\<lparr>cfg_binding := Some (PStr ''weekly''), cfg_enable := Some (PStr [])\<rparr>)
       world_at_import =
     (Inr \<lparr>svc_fetcher = example_fetcher, binding = PStr ''weekly'', enable = PStr [],
            bound = None\<rparr>,
      world_at_import\<lparr>log := [LogInfo ''Polling interval is %s'', LogInfo ''Latitude is %s'',
                                LogInfo ''Longitude is %s'',
                                LogInfo ''RMI service not enabled, exiting.'']\<rparr>)"
    by simp
  from r0 r1 r2 r3 r4' show ?thesis by (intro conjI)
qed

section \<open>The coercion to float\<close>

text \<open>
  C10. In \<^verbatim>\<open>_get_as_float\<close> a present value that is falsy, among them 0, 0.0 and the
  empty string, gives \<^verbatim>\<open>None\<close>, exactly as an absent key does, and so it does in the
  packet a round of the driver loop emits; a float comes only from a truthy value that
  \<^verbatim>\<open>float\<close> converts, and a \<^verbatim>\<open>ValueError\<close> of the conversion gives \<^verbatim>\<open>None\<close> (and
  one logged error).
\<close>

theorem falsy_values_become_null:
  "(key \<notin> fst ` set data \<longrightarrow> get_as_float f data key w = (Inr PNone, w)) \<and>
   (map_of data key = Some v \<and> \<not> truthy v \<longrightarrow>
      get_as_float f data key w = (Inr PNone, w)) \<and>
   \<not> truthy (PInt 0) \<and> \<not> truthy (PFloat 0) \<and> \<not> truthy (PStr []) \<and>
   (get_as_float f data key w = (Inr (PFloat r), w') \<longrightarrow>
      (\<exists>u. map_of data key = Some u \<and> truthy u \<and> py_float f u = Inr r)) \<and>
   (map_of data key = Some v \<and> truthy v \<and> py_float f v = Inr r \<longrightarrow>
      get_as_float f data key w = (Inr (PFloat r), w)) \<and>
   (map_of data key = Some v \<and> truthy v \<and> py_float f v = Inl ValueError \<longrightarrow>
      get_as_float f data key w =
        (Inr PNone, w\<lparr>log := log w @ [LogError ''cannot read value for '%s': %s'']\<rparr>)) \<and>
   (get_weather_packet strptime clock self up w = (Inr data, w1) \<and>
    map_of data key = Some v \<and> \<not> truthy v \<longrightarrow>
      (\<exists>packet w2.
         genLoopPackets_round f strptime clock now self up w = (Inr packet, w2) \<and>
         map_of packet key = Some PNone))"
proof -
  have absent: "get_as_float f data key w = (Inr PNone, w)" if "key \<notin> fst ` set data"
    using that by (rule get_as_float_absent)
  have falsy: "get_as_float f data key w = (Inr PNone, w)"
    if "map_of data key = Some v" "\<not> truthy v" for w
    using that by (simp add: get_as_float_not_truthy dict_get_present)
  have only: "\<exists>u. map_of data key = Some u \<and> truthy u \<and> py_float f u = Inr r"
    if g: "get_as_float f data key w = (Inr (PFloat r), w')"
  proof -
    have c: "key \<in> fst ` set data \<and> truthy (dict_get data key)"
    proof (rule ccontr)
      assume "\<not> ?thesis"
      then have "get_as_float f data key w = (Inr PNone, w)"
        by (auto simp: get_as_float_def)
      with g show False by simp
    qed
    then obtain u where u: "map_of data key = Some u"
      by (metis domD dom_map_of_conv_image_fst)
    then have d: "dict_get data key = u"
      by (rule dict_get_present)
    from g c have "py_float f (dict_get data key) = Inr r"
      by (auto simp: get_as_float_def split: sum.splits if_splits)
    with u c d show ?thesis by simp
  qed
  have coerced: "get_as_float f data key w = (Inr (PFloat r), w)"
    if "map_of data key = Some v" "truthy v" "py_float f v = Inr r"
    using that by (simp add: get_as_float_def dict_get_present map_of_present)
  have caught: "get_as_float f data key w =
      (Inr PNone, w\<lparr>log := log w @ [LogError ''cannot read value for '%s': %s'']\<rparr>)"
    if "map_of data key = Some v" "truthy v" "py_float f v = Inl ValueError"
    using that by (simp add: get_as_float_def dict_get_present map_of_present)
  have emitted: "\<exists>packet w2.
         genLoopPackets_round f strptime clock now self up w = (Inr packet, w2) \<and>
         map_of packet key = Some PNone"
    if fetch: "get_weather_packet strptime clock self up w = (Inr data, w1)"
      and present: "map_of data key = Some v" and "\<not> truthy v"
  proof -
    let ?packet0 = "[(''dateTime'', PInt (py_int now)), (''usUnits'', PInt METRIC)]"
    from coerce_fields_result [of f data "map fst data" ?packet0 w1]
    obtain packet w2 where
      run: "coerce_fields f data (map fst data) ?packet0 w1 = (Inr packet, w2)"
      and inside: "\<forall>k u w0 w0'. k \<in> set (map fst data) \<longrightarrow>
        get_as_float f data k w0 = (Inr u, w0') \<longrightarrow> map_of packet k = Some u"
      by blast
    from present have "key \<in> set (map fst data)"
      by (simp add: map_of_present)
    moreover from that have "get_as_float f data key w1 = (Inr PNone, w1)"
      by (simp add: falsy)
    ultimately have "map_of packet key = Some PNone"
      using inside by blast
    moreover have "genLoopPackets_round f strptime clock now self up w = (Inr packet, w2)"
      using fetch run by (simp add: genLoopPackets_round_def)
    ultimately show ?thesis by blast
  qed
  from absent falsy only coerced caught emitted show ?thesis
    by simp
qed

text \<open>
  An absent key, a cloud cover of 0, a temperature that parses and a wind direction that
  does not; and a round of the driver loop at 0 degrees, whose packet has no temperature.
\<close>

theorem falsy_values_become_null_witness:
  "''windGust'' \<notin> fst ` set example_data \<and>
   get_as_float example_float_of_str example_data ''windGust'' world_at_import =
     (Inr PNone, world_at_import) \<and>
   map_of example_data ''cloudcover'' = Some (PInt 0) \<and>
   get_as_float example_float_of_str example_data ''cloudcover'' world_at_import =
     (Inr PNone, world_at_import) \<and>
   map_of example_data ''outTemp'' = Some (PStr ''21.5'') \<and> truthy (PStr ''21.5'') \<and>
   py_float example_float_of_str (PStr ''21.5'') = Inr 21.5 \<and>
   get_as_float example_float_of_str example_data ''outTemp'' world_at_import =
     (Inr (PFloat 21.5), world_at_import) \<and>
   (\<exists>u. map_of example_data ''outTemp'' = Some u \<and> truthy u \<and>
        py_float example_float_of_str u = Inr 21.5) \<and>
   map_of example_data ''windDir'' = Some (PStr ''N'') \<and> truthy (PStr ''N'') \<and>
   py_float example_float_of_str (PStr ''N'') = Inl ValueError \<and>
   get_as_float example_float_of_str example_data ''windDir'' world_at_import =
     (Inr PNone,
      world_at_import\<lparr>log := log world_at_import @
                                [LogError ''cannot read value for '%s': %s'']\<rparr>) \<and>
   get_weather_packet example_strptime (clock_from 1762254900) example_fetcher
       (Refreshed freezing_weather example_forecasts) world_at_import =
     (Inr [(''barometer'', PNone), (''outTemp'', PFloat 0), (''windSpeed'', PNone),
           (''windGust'', PNone), (''windDir'', PNone), (''cloudcover'', PInt 0),
           (''rainRate'', PFloat 12)],
      world_at_import\<lparr>sessions := [True]\<rparr>) \<and>
   map_of (projr (fst (genLoopPackets_round example_float_of_str example_strptime
                         (clock_from 1762254900) 1762254900 example_fetcher
                         (Refreshed freezing_weather example_forecasts) world_at_import)))
     ''outTemp'' = Some PNone"
proof -
  let ?f = example_float_of_str
  let ?data = "[(''barometer'', PNone), (''outTemp'', PFloat 0), (''windSpeed'', PNone),
           (''windGust'', PNone), (''windDir'', PNone), (''cloudcover'', PInt 0),
           (''rainRate'', PFloat 12)]"
  have a: "''windGust'' \<notin> fst ` set example_data"
    by (simp add: example_data_def)
  have c: "map_of example_data ''cloudcover'' = Some (PInt 0)"
    and t: "map_of example_data ''outTemp'' = Some (PStr ''21.5'')"
    and d: "map_of example_data ''windDir'' = Some (PStr ''N'')"
    by (simp_all add: example_data_def)
  have tt: "truthy (PStr ''21.5'')" and td: "truthy (PStr ''N'')" and fc: "\<not> truthy (PInt 0)"
    and fz: "\<not> truthy (PFloat 0)"
    by simp_all
  have pt: "py_float ?f (PStr ''21.5'') = Inr 21.5"
    and pd: "py_float ?f (PStr ''N'') = Inl ValueError"
    by (simp_all add: example_float_of_str_def)
  have g: "get_weather_packet example_strptime (clock_from 1762254900) example_fetcher
       (Refreshed freezing_weather example_forecasts) world_at_import =
     (Inr ?data, world_at_import\<lparr>sessions := [True]\<rparr>)"
    by (simp add: example_forecasts_def get_weather_packet_def Let_def world_at_import_def
        example_fetcher_def DEFAULT_FIELD_MAP_def DEFAULT_FIELD_MAP_literal_def
        freezing_weather_def example_strptime_def RadarForecast_def forecast_timestamp_def
        dict_get_def get_cloud_cover_def clock_from_def)
  have o: "map_of ?data ''outTemp'' = Some (PFloat 0)"
    by simp
  have r1: "get_as_float ?f example_data ''windGust'' world_at_import =
      (Inr PNone, world_at_import)"
    by (rule falsy_values_become_null [THEN conjunct1, rule_format, OF a])
  have r2: "get_as_float ?f example_data ''cloudcover'' world_at_import =
      (Inr PNone, world_at_import)"
    by (rule falsy_values_become_null [THEN conjunct2, THEN conjunct1, rule_format,
          OF conjI [OF c fc]])
  have r3: "get_as_float ?f example_data ''outTemp'' world_at_import =
      (Inr (PFloat 21.5), world_at_import)"
    by (rule falsy_values_become_null [THEN conjunct2, THEN conjunct2, THEN conjunct2,
          THEN conjunct2, THEN conjunct2, THEN conjunct2, THEN conjunct1, rule_format,
          OF conjI [OF t conjI [OF tt pt]]])
  have r4: "get_as_float ?f example_data ''windDir'' world_at_import =
      (Inr PNone, world_at_import\<lparr>log := log world_at_import @
                                [LogError ''cannot read value for '%s': %s'']\<rparr>)"
    by (rule falsy_values_become_null [THEN conjunct2, THEN conjunct2, THEN conjunct2,
          THEN conjunct2, THEN conjunct2, THEN conjunct2, THEN conjunct2, THEN conjunct1,
          rule_format, OF conjI [OF d conjI [OF td pd]]])
  from falsy_values_become_null [THEN conjunct2, THEN conjunct2, THEN conjunct2,
          THEN conjunct2, THEN conjunct2, THEN conjunct2, THEN conjunct2, THEN conjunct2,
          rule_format, OF conjI [OF g conjI [OF o fz]], of ?f 1762254900]
  have r5: "map_of (projr (fst (genLoopPackets_round ?f example_strptime
                         (clock_from 1762254900) 1762254900 example_fetcher
                         (Refreshed freezing_weather example_forecasts) world_at_import)))
     ''outTemp'' = Some PNone"
    by auto
  have r6: "\<exists>u. map_of example_data ''outTemp'' = Some u \<and> truthy u \<and>
      py_float ?f u = Inr 21.5"
    by (rule falsy_values_become_null [THEN conjunct2, THEN conjunct2, THEN conjunct2,
          THEN conjunct2, THEN conjunct2, THEN conjunct1, rule_format, OF r3])
  from a r1 c r2 t tt pt r3 r6 d td pd r4 g r5 show ?thesis by (intro conjI)
qed

end
